theory Spec2Isabelle
  imports Main
begin

section \<open>Lab 1: the batch job completion tracker\<close>

text \<open>
  The notebook cell defining \<^verbatim>\<open>wait_for_jobs_completion(job_ids, check_interval=60)\<close>
  talks to three things outside itself: the AWS Batch client (\<^verbatim>\<open>describe_jobs\<close>), the
  console (\<^verbatim>\<open>print\<close>) and the clock (\<^verbatim>\<open>time.sleep\<close>). Each such interaction is recorded
  as an event; the list of events so far is the history of the run.
\<close>

datatype event = Query string | Print string | Sleep int

text \<open>
  Exceptions that can leave the function: whatever the client raises (\<open>ClientError\<close>),
  \<^verbatim>\<open>response['jobs'][0]\<close> on an empty list, a missing key of the job dictionary, and the
  \<^verbatim>\<open>ValueError\<close> of \<^verbatim>\<open>time.sleep\<close> on a negative interval.
\<close>

datatype exn = ClientError string | IndexError | KeyError string | ValueError string

text \<open>A job description is a Python dictionary; the response carries the list under \<^verbatim>\<open>'jobs'\<close>.\<close>

type_synonym job = "string \<rightharpoonup> string"

text \<open>
  The status provider is external: its answer to a query may depend on everything that
  happened before (how many queries, how many sleeps), so it is a function of the history.
\<close>

type_synonym provider = "event list \<Rightarrow> string \<Rightarrow> exn + job list"

record state =
  trace :: "event list"
  completed_jobs :: "string set"

datatype outcome = Returns state | Raises exn state

subsection \<open>Rendering numbers as Python's \<^verbatim>\<open>str\<close> does\<close>

definition digit_char :: "nat \<Rightarrow> char" where
  "digit_char d = ''0123456789'' ! d"

fun str_nat :: "nat \<Rightarrow> string" where
  "str_nat n = (if n < 10 then [digit_char n] else str_nat (n div 10) @ [digit_char (n mod 10)])"

declare str_nat.simps [simp del]

definition str_int :: "int \<Rightarrow> string" where
  "str_int i = (if i < 0 then CHR ''-'' # str_nat (nat (- i)) else str_nat (nat i))"

subsection \<open>The external calls\<close>

definition print_line :: "string \<Rightarrow> state \<Rightarrow> state" where
  "print_line l s = s\<lparr>trace := trace s @ [Print l]\<rparr>"

definition describe_jobs :: "provider \<Rightarrow> string \<Rightarrow> state \<Rightarrow> (exn + job list) \<times> state" where
  "describe_jobs prov job_id s = (prov (trace s) job_id, s\<lparr>trace := trace s @ [Query job_id]\<rparr>)"

text \<open>
  \<^verbatim>\<open>time.sleep\<close> refuses a negative length; every other interval is taken to suspend and
  return (the platform's upper limit on the length, some centuries, is not modelled).
\<close>

definition sleep :: "int \<Rightarrow> state \<Rightarrow> outcome" where
  "sleep secs s =
     (if secs < 0 then Raises (ValueError ''sleep length must be non-negative'') s
      else Returns (s\<lparr>trace := trace s @ [Sleep secs]\<rparr>))"

subsection \<open>One iteration of the inner \<^verbatim>\<open>for job_id in job_ids\<close>\<close>

definition poll_job :: "provider \<Rightarrow> string \<Rightarrow> state \<Rightarrow> outcome" where
  "poll_job prov job_id s =
     (if job_id \<in> completed_jobs s then Returns s
      else
        (case describe_jobs prov job_id s of
           (Inl e, s1) \<Rightarrow> Raises e s1
         | (Inr [], s1) \<Rightarrow> Raises IndexError s1
         | (Inr (job # _), s1) \<Rightarrow>
             (case job ''jobName'' of
                None \<Rightarrow> Raises (KeyError ''jobName'') s1
              | Some job_name \<Rightarrow>
                  (case job ''status'' of
                     None \<Rightarrow> Raises (KeyError ''status'') s1
                   | Some status \<Rightarrow>
                       if status \<in> set [''SUCCEEDED'', ''FAILED''] then
                         if job_id \<notin> completed_jobs s1 then
                           let s2 = print_line (''Job '' @ job_name @ '' completed with status: '' @ status) s1;
                               s3 = s2\<lparr>completed_jobs := insert job_id (completed_jobs s2)\<rparr>
                           in if status = ''FAILED'' \<and> job ''statusReason'' \<noteq> None
                              then Returns (print_line (''  Failure reason: '' @ the (job ''statusReason'')) s3)
                              else Returns s3
                         else Returns s1
                       else Returns (print_line (''Job '' @ job_name @ '' is '' @ status) s1)))))"

fun poll_pass :: "provider \<Rightarrow> string list \<Rightarrow> state \<Rightarrow> outcome" where
  "poll_pass prov [] s = Returns s"
| "poll_pass prov (job_id # rest) s =
     (case poll_job prov job_id s of
        Raises e s' \<Rightarrow> Raises e s'
      | Returns s' \<Rightarrow> poll_pass prov rest s')"

subsection \<open>The body of the \<^verbatim>\<open>while\<close> loop and the loop itself\<close>

definition loop_body :: "provider \<Rightarrow> string list \<Rightarrow> int \<Rightarrow> state \<Rightarrow> outcome" where
  "loop_body prov job_ids check_interval s =
     (case poll_pass prov job_ids s of
        Raises e s' \<Rightarrow> Raises e s'
      | Returns s1 \<Rightarrow>
          if card (completed_jobs s1) < length job_ids then
            (case sleep check_interval
                    (print_line (''[waiting '' @ str_int check_interval @ '' seconds before next check...]'') s1) of
               Raises e s' \<Rightarrow> Raises e s'
             | Returns s2 \<Rightarrow> Returns (print_line [] s2))
          else Returns s1)"

text \<open>The loop has no bound on its iterations: not returning is the value \<open>None\<close>.\<close>

partial_function (option) poll_loop :: "provider \<Rightarrow> string list \<Rightarrow> int \<Rightarrow> state \<Rightarrow> outcome option" where
  "poll_loop prov job_ids check_interval s =
     (if card (completed_jobs s) < length job_ids then
        (case loop_body prov job_ids check_interval s of
           Raises e s' \<Rightarrow> Some (Raises e s')
         | Returns s' \<Rightarrow> poll_loop prov job_ids check_interval s')
      else Some (Returns s))"

declare poll_loop.simps [code]

subsection \<open>The final status summary and the whole function\<close>

fun final_summary :: "provider \<Rightarrow> string list \<Rightarrow> state \<Rightarrow> outcome" where
  "final_summary prov [] s = Returns s"
| "final_summary prov (job_id # rest) s =
     (case describe_jobs prov job_id s of
        (Inl e, s1) \<Rightarrow> Raises e s1
      | (Inr [], s1) \<Rightarrow> Raises IndexError s1
      | (Inr (job # _), s1) \<Rightarrow>
          (case job ''jobName'' of
             None \<Rightarrow> Raises (KeyError ''jobName'') s1
           | Some job_name \<Rightarrow>
               (case job ''status'' of
                  None \<Rightarrow> Raises (KeyError ''status'') s1
                | Some status \<Rightarrow>
                    final_summary prov rest (print_line (''  '' @ job_name @ '': '' @ status) s1))))"

text \<open>
  The state after the two opening lines, with the empty completed set. The interval is an
  argument of the function; the notebook's call leaves it at its default, 60.
\<close>

definition initial_state :: "string list \<Rightarrow> state" where
  "initial_state job_ids =
     print_line (''This may take several minutes depending on the workload.'' @ [CHR 0x0A])
       (print_line (''Waiting for '' @ str_nat (length job_ids) @ '' job(s) to complete...'')
          \<lparr>trace = [], completed_jobs = {}\<rparr>)"

definition wait_for_jobs_completion :: "provider \<Rightarrow> string list \<Rightarrow> int \<Rightarrow> outcome option" where
  "wait_for_jobs_completion prov job_ids check_interval =
     (case poll_loop prov job_ids check_interval (initial_state job_ids) of
        None \<Rightarrow> None
      | Some (Raises e s') \<Rightarrow> Some (Raises e s')
      | Some (Returns s2) \<Rightarrow>
          Some (final_summary prov job_ids
                  (print_line (CHR 0x0A # ''Final Status Summary:'')
                     (print_line (CHR 0x0A # '' All '' @ str_nat (length job_ids) @ '' job(s) have completed!'') s2))))"

subsection \<open>Observing a run\<close>

fun out_state :: "outcome \<Rightarrow> state" where
  "out_state (Returns s) = s"
| "out_state (Raises e s) = s"

fun is_sleep :: "event \<Rightarrow> bool" where
  "is_sleep (Sleep secs) = True"
| "is_sleep (Query job_id) = False"
| "is_sleep (Print l) = False"

text \<open>
  The state at the head of the \<^verbatim>\<open>while\<close> loop after \<open>n\<close> complete passes of its body, when
  the run gets that far (no pass before raised and the loop did not exit earlier).
\<close>

fun loop_head :: "provider \<Rightarrow> string list \<Rightarrow> int \<Rightarrow> nat \<Rightarrow> state option" where
  "loop_head prov job_ids check_interval 0 = Some (initial_state job_ids)"
| "loop_head prov job_ids check_interval (Suc n) =
     (case loop_head prov job_ids check_interval n of
        None \<Rightarrow> None
      | Some s \<Rightarrow>
          if card (completed_jobs s) < length job_ids then
            (case loop_body prov job_ids check_interval s of
               Returns s' \<Rightarrow> Some s'
             | Raises e s' \<Rightarrow> None)
          else None)"

text \<open>The identifiers queried in a history, in order.\<close>

fun queries :: "event list \<Rightarrow> string list" where
  "queries [] = []"
| "queries (Query job_id # h) = job_id # queries h"
| "queries (Print l # h) = queries h"
| "queries (Sleep secs # h) = queries h"

text \<open>The number of suspensions in a history: the tracker's only notion of elapsed time.\<close>

definition sleeps :: "event list \<Rightarrow> nat" where
  "sleeps h = length (filter is_sleep h)"

text \<open>
  The provider answers the query for \<open>job_id\<close> after history \<open>h\<close> with a well-formed
  description whose status is terminal.
\<close>

definition reports_terminal :: "provider \<Rightarrow> event list \<Rightarrow> string \<Rightarrow> bool" where
  "reports_terminal prov h job_id =
     (case prov h job_id of
        Inr (job # _) \<Rightarrow>
          job ''jobName'' \<noteq> None \<and> (job ''status'' = Some ''SUCCEEDED'' \<or> job ''status'' = Some ''FAILED'')
      | _ \<Rightarrow> False)"

text \<open>The provider answers with a description that has a name and a status, of any kind.\<close>

definition answers :: "provider \<Rightarrow> event list \<Rightarrow> string \<Rightarrow> bool" where
  "answers prov h job_id =
     (case prov h job_id of
        Inr (job # _) \<Rightarrow> job ''jobName'' \<noteq> None \<and> job ''status'' \<noteq> None
      | _ \<Rightarrow> False)"

subsection \<open>Stand-in providers\<close>

definition mk_job :: "string \<Rightarrow> string \<Rightarrow> job" where
  "mk_job job_name status = [''jobName'' \<mapsto> job_name, ''status'' \<mapsto> status]"

definition always_succeeded :: provider where
  "always_succeeded h job_id = Inr [mk_job (''job-'' @ job_id) ''SUCCEEDED'']"

definition always_failing :: provider where
  "always_failing h job_id = Inl (ClientError ''ThrottlingException'')"

text \<open>
  Three jobs: before the first suspension the provider reports RUNNING, RUNNING, SUCCEEDED;
  afterwards SUCCEEDED, FAILED with reason OOM, SUCCEEDED.
\<close>

definition scenario_provider :: provider where
  "scenario_provider h job_id =
     (if sleeps h = 0 then
        (if job_id = ''id-1'' then Inr [mk_job ''job-1'' ''RUNNING'']
         else if job_id = ''id-2'' then Inr [mk_job ''job-2'' ''RUNNING'']
         else Inr [mk_job ''job-3'' ''SUCCEEDED''])
      else
        (if job_id = ''id-1'' then Inr [mk_job ''job-1'' ''SUCCEEDED'']
         else if job_id = ''id-2'' then Inr [(mk_job ''job-2'' ''FAILED'')(''statusReason'' \<mapsto> ''OOM'')]
         else Inr [mk_job ''job-3'' ''SUCCEEDED'']))"

section \<open>Lab 2: the custom inference script\<close>

text \<open>
  The script \<^verbatim>\<open>inference-embeddings.py\<close> is written by the deployment notebook. Its
  \<^verbatim>\<open>input_fn\<close> and \<^verbatim>\<open>predict_fn\<close> are modelled; the JSON parser, the tokenizer, the
  tensor's \<^verbatim>\<open>to(device)\<close> and the model are library code and are taken as parameters
  that may raise. Logging is not modelled.
\<close>

datatype json = JNull | JBool bool | JNum string | JStr string | JArr "json list" | JObj "(string \<times> json) list"

text \<open>
  \<open>UnsupportedContentType c\<close> is \<^verbatim>\<open>ValueError(f"Unsupported content type: {c}")\<close>,
  \<open>UnknownMode m\<close> is \<^verbatim>\<open>ValueError(f"Unknown mode: {m}")\<close>, \<open>MissingKey k\<close> is the
  \<^verbatim>\<open>KeyError\<close> of a dictionary lookup, \<open>NotSubscriptable\<close> the \<^verbatim>\<open>TypeError\<close> of indexing
  a value that is not a dictionary with a string, \<open>JSONDecodeError\<close> what \<^verbatim>\<open>json.loads\<close>
  raises on a malformed body (a subclass of \<^verbatim>\<open>ValueError\<close>), \<open>LibraryTypeError\<close> the
  \<^verbatim>\<open>TypeError\<close> of a library called with an argument of the wrong type, \<open>LibraryError\<close> any
  other exception of a library that is not a \<^verbatim>\<open>ValueError\<close> (a \<^verbatim>\<open>RuntimeError\<close>, say).
\<close>

datatype inference_error =
    UnsupportedContentType string
  | UnknownMode json
  | MissingKey string
  | NotSubscriptable
  | JSONDecodeError string
  | LibraryTypeError string
  | LibraryError string

fun is_ValueError :: "inference_error \<Rightarrow> bool" where
  "is_ValueError (UnsupportedContentType c) = True"
| "is_ValueError (UnknownMode m) = True"
| "is_ValueError (MissingKey k) = False"
| "is_ValueError NotSubscriptable = False"
| "is_ValueError (JSONDecodeError m) = True"
| "is_ValueError (LibraryTypeError m) = False"
| "is_ValueError (LibraryError m) = False"

definition input_fn ::
  "(string \<Rightarrow> inference_error + json) \<Rightarrow> string \<Rightarrow> string \<Rightarrow> inference_error + json \<times> json" where
  "input_fn json_loads request_body content_type =
     (if content_type = ''application/json'' then
        (case json_loads request_body of
           Inl e \<Rightarrow> Inl e
         | Inr (JObj input_data) \<Rightarrow>
             (case map_of input_data ''sequence'' of
                None \<Rightarrow> Inl (MissingKey ''sequence'')
              | Some sequence \<Rightarrow>
                  (case map_of input_data ''mode'' of
                     None \<Rightarrow> Inr (sequence, JStr ''logits'')
                   | Some mode \<Rightarrow> Inr (sequence, mode)))
         | Inr _ \<Rightarrow> Inl NotSubscriptable)
      else Inl (UnsupportedContentType content_type))"

text \<open>The calls \<^verbatim>\<open>predict_fn\<close> makes into the libraries, in order.\<close>

datatype call = Encode json | To string | Forward bool

record ('t, 'o) model_artifacts =
  model :: "'t \<Rightarrow> bool \<Rightarrow> inference_error + 'o"
  tokenizer :: "json \<Rightarrow> inference_error + 't"
  to_device :: "'t \<Rightarrow> string \<Rightarrow> inference_error + 't"
  device :: string

text \<open>
  \<open>model m inputs h\<close> is \<^verbatim>\<open>model(inputs)\<close> for \<open>h = False\<close> and
  \<^verbatim>\<open>model(inputs, output_hidden_states=True)\<close> for \<open>h = True\<close>. The result pairs what
  the function returns or raises with the library calls it made.
\<close>

definition predict_fn ::
  "json \<times> json \<Rightarrow> ('t, 'o) model_artifacts \<Rightarrow> (inference_error + 'o \<times> json) \<times> call list" where
  "predict_fn input_data model_artifacts =
     (case input_data of (sequence, mode) \<Rightarrow>
        (case tokenizer model_artifacts sequence of
           Inl e \<Rightarrow> (Inl e, [Encode sequence])
         | Inr inputs \<Rightarrow>
             (case to_device model_artifacts inputs (device model_artifacts) of
                Inl e \<Rightarrow> (Inl e, [Encode sequence, To (device model_artifacts)])
              | Inr inputs' \<Rightarrow>
                  if mode = JStr ''logits'' then
                    (case model model_artifacts inputs' False of
                       Inl e \<Rightarrow> (Inl e, [Encode sequence, To (device model_artifacts), Forward False])
                     | Inr output \<Rightarrow>
                         (Inr (output, mode), [Encode sequence, To (device model_artifacts), Forward False]))
                  else if mode = JStr ''embeddings'' then
                    (case model model_artifacts inputs' True of
                       Inl e \<Rightarrow> (Inl e, [Encode sequence, To (device model_artifacts), Forward True])
                     | Inr output \<Rightarrow>
                         (Inr (output, mode), [Encode sequence, To (device model_artifacts), Forward True]))
                  else (Inl (UnknownMode mode), [Encode sequence, To (device model_artifacts)]))))"

text \<open>
  A stand-in for the libraries: the tokens of a string sequence are its characters, and
  a sequence that is not a string is refused with a \<^verbatim>\<open>TypeError\<close>, as a tokenizer does.
\<close>

definition toy_artifacts :: "(string, string) model_artifacts" where
  "toy_artifacts =
     \<lparr>model = (\<lambda>inputs hidden. Inr (if hidden then ''hidden:'' @ inputs else ''logits:'' @ inputs)),
      tokenizer = (\<lambda>sequence. case sequence of
                     JStr s \<Rightarrow> Inr s
                   | _ \<Rightarrow> Inl (LibraryTypeError ''TextEncodeInput must be a string'')),
      to_device = (\<lambda>inputs dev. Inr inputs),
      device = ''cpu''\<rparr>"

text \<open>A stand-in for \<^verbatim>\<open>json.loads\<close> that knows three request bodies and refuses every other.\<close>

definition toy_loads :: "string \<Rightarrow> inference_error + json" where
  "toy_loads request_body =
     (if request_body = ''{\"sequence\": \"MSV\"}'' then Inr (JObj [(''sequence'', JStr ''MSV'')])
      else if request_body = ''{\"sequence\": \"MSV\", \"mode\": \"attention\"}''
        then Inr (JObj [(''sequence'', JStr ''MSV''), (''mode'', JStr ''attention'')])
      else if request_body = ''{\"sequence\": 5, \"mode\": \"attention\"}''
        then Inr (JObj [(''sequence'', JNum ''5''), (''mode'', JStr ''attention'')])
      else Inl (JSONDecodeError ''Expecting value''))"

section \<open>Auxiliary facts about the tracker\<close>

lemma poll_job_completed:
  "completed_jobs s \<subseteq> completed_jobs (out_state (poll_job prov job_id s))
   \<and> completed_jobs (out_state (poll_job prov job_id s)) \<subseteq> insert job_id (completed_jobs s)"
  by (auto simp: poll_job_def describe_jobs_def print_line_def Let_def
           split: sum.splits list.splits option.splits prod.splits)

lemma poll_pass_completed:
  "completed_jobs s \<subseteq> completed_jobs (out_state (poll_pass prov job_ids s))
   \<and> completed_jobs (out_state (poll_pass prov job_ids s)) \<subseteq> completed_jobs s \<union> set job_ids"
proof (induction job_ids arbitrary: s)
  case Nil
  show ?case by simp
next
  case (Cons j js)
  show ?case
  proof (cases "poll_job prov j s")
    case (Returns s')
    with poll_job_completed[of s prov j] Cons.IH[of s'] show ?thesis by auto
  next
    case (Raises e s')
    with poll_job_completed[of s prov j] show ?thesis by auto
  qed
qed

lemma loop_body_completed:
  "completed_jobs (out_state (loop_body prov job_ids ci s)) = completed_jobs (out_state (poll_pass prov job_ids s))"
  by (auto simp: loop_body_def sleep_def print_line_def split: outcome.splits)

lemma dup_card_less:
  assumes "\<not> distinct job_ids" "C \<subseteq> set job_ids"
  shows "card C < length job_ids"
proof -
  have "card (set job_ids) \<noteq> length job_ids" using assms(1) card_distinct by blast
  then have "card (set job_ids) < length job_ids" using card_length[of job_ids] by linarith
  moreover have "card C \<le> card (set job_ids)" using assms(2) by (simp add: card_mono)
  ultimately show ?thesis by linarith
qed

lemma loop_body_subset:
  assumes "completed_jobs s \<subseteq> set job_ids"
  shows "completed_jobs (out_state (loop_body prov job_ids ci s)) \<subseteq> set job_ids"
  using poll_pass_completed[of s prov job_ids] assms by (auto simp: loop_body_completed)

lemma poll_loop_exit_inv:
  assumes "poll_loop prov job_ids ci s = Some y"
  shows "\<forall>s'. y = Returns s' \<longrightarrow> completed_jobs s \<subseteq> set job_ids
        \<longrightarrow> completed_jobs s' \<subseteq> set job_ids \<and> \<not> card (completed_jobs s') < length job_ids"
  using assms
proof (induct rule: poll_loop.raw_induct[rotated 1, consumes 1, case_names unfold])
  case (unfold f prov job_ids ci s y)
  show ?case
  proof (cases "card (completed_jobs s) < length job_ids")
    case False
    with unfold(2) show ?thesis by auto
  next
    case True
    show ?thesis
    proof (cases "loop_body prov job_ids ci s")
      case (Returns s1)
      with True unfold(2) have run: "f prov job_ids ci s1 = Some y" by simp
      show ?thesis
      proof (intro allI impI)
        fix s'
        assume y: "y = Returns s'" and sub: "completed_jobs s \<subseteq> set job_ids"
        have "completed_jobs s1 \<subseteq> set job_ids"
          using loop_body_subset[OF sub, of prov ci] Returns by simp
        then show "completed_jobs s' \<subseteq> set job_ids \<and> \<not> card (completed_jobs s') < length job_ids"
          using unfold(1)[OF run] y by blast
      qed
    next
      case (Raises e s1)
      with True unfold(2) show ?thesis by auto
    qed
  qed
qed

lemma poll_loop_exit_cond:
  "poll_loop prov job_ids ci s = Some (Returns s') \<Longrightarrow> completed_jobs s \<subseteq> set job_ids
     \<Longrightarrow> completed_jobs s' \<subseteq> set job_ids \<and> \<not> card (completed_jobs s') < length job_ids"
  using poll_loop_exit_inv by blast

lemma poll_loop_dup_no_return:
  assumes "\<not> distinct job_ids" "completed_jobs s \<subseteq> set job_ids"
  shows "poll_loop prov job_ids ci s \<noteq> Some (Returns s')"
  using poll_loop_exit_cond[of prov job_ids ci s s'] dup_card_less[OF assms(1)] assms(2) by blast

lemma sleeps_append [simp]: "sleeps (h @ h') = sleeps h + sleeps h'"
  by (simp add: sleeps_def)

lemma sleeps_simps [simp]:
  "sleeps [] = 0" "sleeps (Query j # h) = sleeps h" "sleeps (Print l # h) = sleeps h"
  "sleeps (Sleep n # h) = Suc (sleeps h)"
  by (simp_all add: sleeps_def)

lemma poll_job_sleeps:
  "sleeps (trace (out_state (poll_job prov job_id s))) = sleeps (trace s)"
  by (auto simp: poll_job_def describe_jobs_def print_line_def Let_def
           split: sum.splits list.splits option.splits prod.splits)

lemma poll_pass_sleeps:
  "sleeps (trace (out_state (poll_pass prov job_ids s))) = sleeps (trace s)"
proof (induction job_ids arbitrary: s)
  case Nil
  show ?case by simp
next
  case (Cons j js)
  show ?case
  proof (cases "poll_job prov j s")
    case (Returns s')
    with poll_job_sleeps[of prov j s] Cons.IH[of s'] show ?thesis by simp
  next
    case (Raises e s')
    with poll_job_sleeps[of prov j s] show ?thesis by simp
  qed
qed

lemma poll_job_terminal:
  assumes "reports_terminal prov (trace s) job_id"
  shows "\<exists>s'. poll_job prov job_id s = Returns s' \<and> completed_jobs s' = insert job_id (completed_jobs s)"
  using assms
  by (auto simp: reports_terminal_def poll_job_def describe_jobs_def print_line_def Let_def
           split: sum.splits list.splits option.splits prod.splits)

lemma poll_pass_terminal:
  assumes "\<forall>h j. j \<in> set js \<and> K \<le> sleeps h \<longrightarrow> reports_terminal prov h j"
    and "K \<le> sleeps (trace s)"
  shows "\<exists>s'. poll_pass prov js s = Returns s' \<and> completed_jobs s' = completed_jobs s \<union> set js"
  using assms
proof (induction js arbitrary: s)
  case Nil
  show ?case by simp
next
  case (Cons j js)
  have "reports_terminal prov (trace s) j" using Cons.prems by simp
  from poll_job_terminal[OF this] obtain s1 where
    s1: "poll_job prov j s = Returns s1" "completed_jobs s1 = insert j (completed_jobs s)" by blast
  have "sleeps (trace s1) = sleeps (trace s)" using poll_job_sleeps[of prov j s] s1(1) by simp
  then have "K \<le> sleeps (trace s1)" using Cons.prems(2) by simp
  moreover have "\<forall>h j. j \<in> set js \<and> K \<le> sleeps h \<longrightarrow> reports_terminal prov h j"
    using Cons.prems(1) by simp
  ultimately obtain s' where "poll_pass prov js s1 = Returns s'" "completed_jobs s' = completed_jobs s1 \<union> set js"
    using Cons.IH[of s1] by blast
  with s1 show ?case by auto
qed

lemma loop_body_cases:
  "(\<exists>e s'. loop_body prov job_ids ci s = Raises e s')
   \<or> (\<exists>s'. loop_body prov job_ids ci s = Returns s' \<and> poll_pass prov job_ids s = Returns s'
          \<and> \<not> card (completed_jobs s') < length job_ids)
   \<or> (\<exists>s1 s'. loop_body prov job_ids ci s = Returns s' \<and> poll_pass prov job_ids s = Returns s1
          \<and> card (completed_jobs s1) < length job_ids
          \<and> completed_jobs s' = completed_jobs s1
          \<and> sleeps (trace s') = Suc (sleeps (trace s1)))"
  by (cases "poll_pass prov job_ids s") (auto simp: loop_body_def sleep_def print_line_def)

lemma loop_body_no_raise:
  assumes "\<forall>h j. j \<in> set job_ids \<longrightarrow> reports_terminal prov h j" "0 \<le> ci"
  shows "\<exists>s'. loop_body prov job_ids ci s = Returns s'"
proof -
  have "\<forall>h j. j \<in> set job_ids \<and> 0 \<le> sleeps h \<longrightarrow> reports_terminal prov h j"
    using assms(1) by simp
  from poll_pass_terminal[OF this, of s] obtain s1 where "poll_pass prov job_ids s = Returns s1"
    by auto
  then show ?thesis using assms(2) by (simp add: loop_body_def sleep_def)
qed

lemma poll_loop_diverges:
  assumes "poll_loop prov job_ids ci s = Some y"
  shows "\<not> (\<not> distinct job_ids \<and> completed_jobs s \<subseteq> set job_ids \<and> 0 \<le> ci
            \<and> (\<forall>h j. j \<in> set job_ids \<longrightarrow> reports_terminal prov h j))"
  using assms
proof (induct rule: poll_loop.raw_induct[rotated 1, consumes 1, case_names unfold])
  case (unfold f prov job_ids ci s y)
  show ?case
  proof
    assume inv: "\<not> distinct job_ids \<and> completed_jobs s \<subseteq> set job_ids \<and> 0 \<le> ci
            \<and> (\<forall>h j. j \<in> set job_ids \<longrightarrow> reports_terminal prov h j)"
    then have cond: "card (completed_jobs s) < length job_ids"
      using dup_card_less by blast
    from inv loop_body_no_raise[of job_ids prov ci s] obtain s1 where
      s1: "loop_body prov job_ids ci s = Returns s1" by blast
    with cond unfold(2) have run: "f prov job_ids ci s1 = Some y" by simp
    have "completed_jobs s1 \<subseteq> set job_ids"
      using loop_body_subset[of s job_ids prov ci] inv s1 by simp
    with inv unfold(1)[OF run] show False by blast
  qed
qed

lemma wait_diverges:
  assumes "\<not> distinct job_ids" "0 \<le> ci" "\<forall>h j. j \<in> set job_ids \<longrightarrow> reports_terminal prov h j"
  shows "wait_for_jobs_completion prov job_ids ci = None"
proof -
  have "completed_jobs (initial_state job_ids) \<subseteq> set job_ids"
    by (simp add: initial_state_def print_line_def)
  with assms have "\<And>y. poll_loop prov job_ids ci (initial_state job_ids) \<noteq> Some y"
    using poll_loop_diverges[of prov job_ids ci "initial_state job_ids"] by blast
  then have "poll_loop prov job_ids ci (initial_state job_ids) = None"
    by (cases "poll_loop prov job_ids ci (initial_state job_ids)") auto
  then show ?thesis by (simp add: wait_for_jobs_completion_def)
qed

lemma always_succeeded_terminal: "reports_terminal always_succeeded h j"
  by (simp add: reports_terminal_def always_succeeded_def mk_job_def)

lemma final_summary_state:
  "completed_jobs (out_state (final_summary prov job_ids s)) = completed_jobs s
   \<and> sleeps (trace (out_state (final_summary prov job_ids s))) = sleeps (trace s)"
proof (induction job_ids arbitrary: s)
  case Nil
  show ?case by simp
next
  case (Cons j js)
  show ?case
    by (auto simp: describe_jobs_def print_line_def Cons.IH
             split: sum.splits list.splits option.splits prod.splits)
qed

lemma loop_body_sleeps_le:
  "sleeps (trace (out_state (loop_body prov job_ids ci s))) \<le> Suc (sleeps (trace s))"
  using poll_pass_sleeps[of prov job_ids s]
  by (cases "poll_pass prov job_ids s") (auto simp: loop_body_def sleep_def print_line_def)

lemma loop_body_raises_sleeps:
  "loop_body prov job_ids ci s = Raises e s' \<Longrightarrow> sleeps (trace s') = sleeps (trace s)"
  using poll_pass_sleeps[of prov job_ids s]
  by (cases "poll_pass prov job_ids s")
     (auto simp: loop_body_def sleep_def print_line_def split: if_splits)

lemma poll_loop_terminates_within:
  assumes dist: "distinct job_ids"
    and evt: "\<forall>h j. j \<in> set job_ids \<and> K \<le> sleeps h \<longrightarrow> reports_terminal prov h j"
  shows "completed_jobs s \<subseteq> set job_ids \<Longrightarrow>
     \<exists>out. poll_loop prov job_ids ci s = Some out
        \<and> sleeps (trace (out_state out)) \<le> max K (sleeps (trace s))"
proof (induction "K - sleeps (trace s)" arbitrary: s rule: less_induct)
  case less
  show ?case
  proof (cases "card (completed_jobs s) < length job_ids")
    case False
    then have "poll_loop prov job_ids ci s = Some (Returns s)" by (subst poll_loop.simps) simp
    then show ?thesis by simp
  next
    case True
    consider (raises) e s' where "loop_body prov job_ids ci s = Raises e s'"
      | (finished) s' where "loop_body prov job_ids ci s = Returns s'" "poll_pass prov job_ids s = Returns s'"
          "\<not> card (completed_jobs s') < length job_ids"
      | (slept) s1 s' where "loop_body prov job_ids ci s = Returns s'" "poll_pass prov job_ids s = Returns s1"
          "card (completed_jobs s1) < length job_ids" "completed_jobs s' = completed_jobs s1"
          "sleeps (trace s') = Suc (sleeps (trace s1))"
      using loop_body_cases[of prov job_ids ci s] by blast
    then show ?thesis
    proof cases
      case raises
      with True have "poll_loop prov job_ids ci s = Some (Raises e s')"
        by (subst poll_loop.simps) simp
      with loop_body_raises_sleeps[OF raises] show ?thesis by simp
    next
      case finished
      have "poll_loop prov job_ids ci s' = Some (Returns s')"
        using finished(3) by (subst poll_loop.simps) simp
      with True finished(1) have "poll_loop prov job_ids ci s = Some (Returns s')"
        by (subst poll_loop.simps) simp
      moreover have "sleeps (trace s') = sleeps (trace s)"
        using poll_pass_sleeps[of prov job_ids s] finished(2) by simp
      ultimately show ?thesis by simp
    next
      case slept
      have sl1: "sleeps (trace s1) = sleeps (trace s)"
        using poll_pass_sleeps[of prov job_ids s] slept(2) by simp
      have sub1: "completed_jobs s1 \<subseteq> set job_ids"
        using poll_pass_completed[of s prov job_ids] slept(2) less.prems by auto
      have early: "sleeps (trace s) < K"
      proof (rule ccontr)
        assume "\<not> sleeps (trace s) < K"
        then have "K \<le> sleeps (trace s)" by simp
        from poll_pass_terminal[OF evt this] slept(2)
        have "completed_jobs s1 = completed_jobs s \<union> set job_ids" by auto
        with less.prems have "completed_jobs s1 = set job_ids" by auto
        with dist have "card (completed_jobs s1) = length job_ids" by (simp add: distinct_card)
        with slept(3) show False by simp
      qed
      have "K - sleeps (trace s') < K - sleeps (trace s)"
        using early slept(5) sl1 by simp
      moreover have "completed_jobs s' \<subseteq> set job_ids" using sub1 slept(4) by simp
      ultimately obtain out where out: "poll_loop prov job_ids ci s' = Some out"
          "sleeps (trace (out_state out)) \<le> max K (sleeps (trace s'))"
        using less.hyps[of s'] by blast
      from True slept(1) out(1) have "poll_loop prov job_ids ci s = Some out"
        by (subst poll_loop.simps) simp
      moreover have "max K (sleeps (trace s')) = K" using early slept(5) sl1 by simp
      ultimately show ?thesis using out(2) by auto
    qed
  qed
qed

lemma initial_state_simps:
  "completed_jobs (initial_state job_ids) = {}" "sleeps (trace (initial_state job_ids)) = 0"
  by (simp_all add: initial_state_def print_line_def)

lemma wait_terminates_within:
  assumes "distinct job_ids"
    and "\<forall>h j. j \<in> set job_ids \<and> K \<le> sleeps h \<longrightarrow> reports_terminal prov h j"
  shows "\<exists>out. wait_for_jobs_completion prov job_ids ci = Some out
           \<and> sleeps (trace (out_state out)) \<le> K"
proof -
  from poll_loop_terminates_within[OF assms, of "initial_state job_ids" ci]
  obtain out where out: "poll_loop prov job_ids ci (initial_state job_ids) = Some out"
    "sleeps (trace (out_state out)) \<le> K"
    by (auto simp: initial_state_simps)
  show ?thesis
  proof (cases out)
    case (Raises e s')
    with out show ?thesis by (simp add: wait_for_jobs_completion_def)
  next
    case (Returns s2)
    with out show ?thesis
      by (simp add: wait_for_jobs_completion_def final_summary_state print_line_def)
  qed
qed

lemma poll_job_answers:
  assumes "answers prov (trace s) job_id"
  shows "\<exists>s'. poll_job prov job_id s = Returns s'"
  using assms
  by (auto simp: answers_def poll_job_def describe_jobs_def Let_def
           split: sum.splits list.splits option.splits prod.splits)

lemma poll_pass_answers:
  assumes "\<forall>h j. j \<in> set js \<longrightarrow> answers prov h j"
  shows "\<exists>s'. poll_pass prov js s = Returns s'"
  using assms
proof (induction js arbitrary: s)
  case Nil
  show ?case by simp
next
  case (Cons j js)
  then have "answers prov (trace s) j" by simp
  from poll_job_answers[OF this] obtain s1 where "poll_job prov j s = Returns s1" by blast
  moreover obtain s' where "poll_pass prov js s1 = Returns s'"
    using Cons.IH[of s1] Cons.prems by auto
  ultimately show ?case by simp
qed

lemma final_summary_answers:
  assumes "\<forall>h j. j \<in> set js \<longrightarrow> answers prov h j"
  shows "\<exists>s'. final_summary prov js s = Returns s'"
  using assms
proof (induction js arbitrary: s)
  case Nil
  show ?case by simp
next
  case (Cons j js)
  then have a: "answers prov (trace s) j" by simp
  have "\<forall>h j. j \<in> set js \<longrightarrow> answers prov h j" using Cons.prems by simp
  from Cons.IH[OF this] a show ?case
    by (auto simp: answers_def describe_jobs_def split: sum.splits list.splits option.splits)
qed

lemma poll_loop_answers:
  assumes "poll_loop prov job_ids ci s = Some out"
  shows "(\<forall>h j. j \<in> set job_ids \<longrightarrow> answers prov h j) \<and> 0 \<le> ci \<longrightarrow> (\<exists>s'. out = Returns s')"
  using assms
proof (induct rule: poll_loop.raw_induct[rotated 1, consumes 1, case_names unfold])
  case (unfold f prov job_ids ci s out)
  show ?case
  proof
    assume a: "(\<forall>h j. j \<in> set job_ids \<longrightarrow> answers prov h j) \<and> 0 \<le> ci"
    show "\<exists>s'. out = Returns s'"
    proof (cases "card (completed_jobs s) < length job_ids")
      case False
      with unfold(2) show ?thesis by auto
    next
      case True
      from a poll_pass_answers[of job_ids prov s] obtain s1 where "poll_pass prov job_ids s = Returns s1"
        by blast
      with a have "\<exists>s2. loop_body prov job_ids ci s = Returns s2"
        by (simp add: loop_body_def sleep_def)
      then obtain s2 where "loop_body prov job_ids ci s = Returns s2" by blast
      with True unfold(2) have "f prov job_ids ci s2 = Some out" by simp
      from unfold(1)[OF this] a show ?thesis by blast
    qed
  qed
qed

lemma wait_answers:
  assumes "wait_for_jobs_completion prov job_ids ci = Some out"
    and "\<forall>h j. j \<in> set job_ids \<longrightarrow> answers prov h j" "0 \<le> ci"
  shows "\<exists>s'. out = Returns s'"
proof (cases "poll_loop prov job_ids ci (initial_state job_ids)")
  case None
  with assms(1) show ?thesis by (simp add: wait_for_jobs_completion_def)
next
  case (Some y)
  from poll_loop_answers[OF Some] assms(2,3) obtain s2 where y: "y = Returns s2" by blast
  obtain s' where "final_summary prov job_ids
                  (print_line (CHR 0x0A # ''Final Status Summary:'')
                     (print_line (CHR 0x0A # '' All '' @ str_nat (length job_ids) @ '' job(s) have completed!'') s2))
                 = Returns s'"
    using final_summary_answers[OF assms(2)] by blast
  with Some y assms(1) show ?thesis by (simp add: wait_for_jobs_completion_def)
qed

lemma str_nat_0: "str_nat 0 = ''0''"
  by (simp add: str_nat.simps digit_char_def)

lemma scenario_provider_terminal:
  "1 \<le> sleeps h \<Longrightarrow> reports_terminal scenario_provider h j"
  by (simp add: reports_terminal_def scenario_provider_def mk_job_def)

lemma scenario_provider_answers: "answers scenario_provider h j"
  by (simp add: answers_def scenario_provider_def mk_job_def)



lemma initial_state_1:
  "initial_state [j] = \<lparr>trace = [Print ''Waiting for 1 job(s) to complete...'',
       Print (''This may take several minutes depending on the workload.'' @ [CHR 0x0A])],
     completed_jobs = {}\<rparr>"
  by (simp add: initial_state_def print_line_def str_nat.simps digit_char_def)

lemma loop_head_poll_loop:
  "loop_head prov job_ids ci n = Some s \<Longrightarrow>
     poll_loop prov job_ids ci (initial_state job_ids) = poll_loop prov job_ids ci s"
proof (induction n arbitrary: s)
  case 0
  then show ?case by simp
next
  case (Suc n)
  from Suc.prems obtain s0 where s0: "loop_head prov job_ids ci n = Some s0"
      "card (completed_jobs s0) < length job_ids" "loop_body prov job_ids ci s0 = Returns s"
    by (auto split: option.splits if_splits outcome.splits)
  have "poll_loop prov job_ids ci s0 = poll_loop prov job_ids ci s"
    using s0(2,3) by (subst poll_loop.simps) simp
  with Suc.IH[OF s0(1)] show ?case by simp
qed

lemma poll_pass_append:
  "poll_pass prov (xs @ ys) s =
     (case poll_pass prov xs s of Raises e s' \<Rightarrow> Raises e s' | Returns s' \<Rightarrow> poll_pass prov ys s')"
  by (induction xs arbitrary: s) (auto split: outcome.splits)

lemma final_summary_append:
  "final_summary prov (xs @ ys) s =
     (case final_summary prov xs s of Raises e s' \<Rightarrow> Raises e s' | Returns s' \<Rightarrow> final_summary prov ys s')"
proof (induction xs arbitrary: s)
  case Nil
  show ?case by simp
next
  case (Cons x xs)
  show ?case
    by (auto simp: Cons.IH describe_jobs_def split: sum.splits list.splits option.splits)
qed

lemma wait_after_loop:
  "poll_loop prov job_ids ci (initial_state job_ids) = Some (Returns s2) \<Longrightarrow>
     \<exists>out. wait_for_jobs_completion prov job_ids ci = Some out
        \<and> sleeps (trace (out_state out)) = sleeps (trace s2)"
  by (simp add: wait_for_jobs_completion_def final_summary_state print_line_def)

lemma poll_job_events:
  "\<exists>evs. trace (out_state (poll_job prov j s)) = trace s @ evs
      \<and> (\<forall>q. Query q \<in> set evs \<longrightarrow> q \<notin> completed_jobs s)"
  by (auto simp: poll_job_def describe_jobs_def print_line_def Let_def
           split: sum.splits list.splits option.splits prod.splits)

lemma poll_pass_events:
  "\<exists>evs. trace (out_state (poll_pass prov js s)) = trace s @ evs
      \<and> (\<forall>q. Query q \<in> set evs \<longrightarrow> q \<notin> completed_jobs s)"
proof (induction js arbitrary: s)
  case Nil
  show ?case by simp
next
  case (Cons j js)
  from poll_job_events[of prov j s] obtain evs1 where
    e1: "trace (out_state (poll_job prov j s)) = trace s @ evs1"
        "\<forall>q. Query q \<in> set evs1 \<longrightarrow> q \<notin> completed_jobs s" by blast
  show ?case
  proof (cases "poll_job prov j s")
    case (Raises e s')
    with e1 show ?thesis by auto
  next
    case (Returns s')
    from Cons.IH[of s'] obtain evs2 where
      e2: "trace (out_state (poll_pass prov js s')) = trace s' @ evs2"
          "\<forall>q. Query q \<in> set evs2 \<longrightarrow> q \<notin> completed_jobs s'" by blast
    have "completed_jobs s \<subseteq> completed_jobs s'"
      using poll_job_completed[of s prov j] Returns by simp
    with e1 e2 Returns have "trace (out_state (poll_pass prov (j # js) s)) = trace s @ (evs1 @ evs2)
        \<and> (\<forall>q. Query q \<in> set (evs1 @ evs2) \<longrightarrow> q \<notin> completed_jobs s)"
      by auto
    then show ?thesis by blast
  qed
qed

lemma loop_body_events:
  "\<exists>evs. trace (out_state (loop_body prov job_ids ci s)) = trace s @ evs
      \<and> (\<forall>q. Query q \<in> set evs \<longrightarrow> q \<notin> completed_jobs s)"
proof -
  from poll_pass_events[of prov job_ids s] obtain evs where
    e: "trace (out_state (poll_pass prov job_ids s)) = trace s @ evs"
       "\<forall>q. Query q \<in> set evs \<longrightarrow> q \<notin> completed_jobs s" by blast
  show ?thesis
  proof (cases "poll_pass prov job_ids s")
    case (Raises e' s')
    with e show ?thesis by (auto simp: loop_body_def)
  next
    case (Returns s1)
    with e show ?thesis
      by (auto simp: loop_body_def sleep_def print_line_def)
  qed
qed

lemma poll_loop_events:
  assumes "poll_loop prov job_ids ci s = Some out"
  shows "\<exists>evs. trace (out_state out) = trace s @ evs
           \<and> (\<forall>q. Query q \<in> set evs \<longrightarrow> q \<notin> completed_jobs s)"
  using assms
proof (induct rule: poll_loop.raw_induct[rotated 1, consumes 1, case_names unfold])
  case (unfold f prov job_ids ci s out)
  show ?case
  proof (cases "card (completed_jobs s) < length job_ids")
    case False
    with unfold(2) show ?thesis by auto
  next
    case True
    from loop_body_events[of prov job_ids ci s] obtain evs1 where
      e1: "trace (out_state (loop_body prov job_ids ci s)) = trace s @ evs1"
          "\<forall>q. Query q \<in> set evs1 \<longrightarrow> q \<notin> completed_jobs s" by blast
    show ?thesis
    proof (cases "loop_body prov job_ids ci s")
      case (Raises e s1)
      with True unfold(2) have "out = Raises e s1" by simp
      with e1 Raises show ?thesis by auto
    next
      case (Returns s1)
      with True unfold(2) have "f prov job_ids ci s1 = Some out" by simp
      from unfold(1)[OF this] obtain evs2 where
        e2: "trace (out_state out) = trace s1 @ evs2"
            "\<forall>q. Query q \<in> set evs2 \<longrightarrow> q \<notin> completed_jobs s1" by blast
      have "completed_jobs s \<subseteq> completed_jobs s1"
        using poll_pass_completed[of s prov job_ids] loop_body_completed[of prov job_ids ci s] Returns
        by simp
      with e1 e2 Returns have "trace (out_state out) = trace s @ (evs1 @ evs2)
          \<and> (\<forall>q. Query q \<in> set (evs1 @ evs2) \<longrightarrow> q \<notin> completed_jobs s)"
        by auto
      then show ?thesis by blast
    qed
  qed
qed

lemma poll_pass_skip:
  "C \<subseteq> completed_jobs s \<Longrightarrow> poll_pass prov js s = poll_pass prov (filter (\<lambda>j. j \<notin> C) js) s"
proof (induction js arbitrary: s)
  case Nil
  show ?case by simp
next
  case (Cons j js)
  show ?case
  proof (cases "j \<in> completed_jobs s")
    case True
    then have "poll_job prov j s = Returns s" by (simp add: poll_job_def)
    with Cons show ?thesis by simp
  next
    case False
    with Cons.prems have notC: "j \<notin> C" by auto
    show ?thesis
    proof (cases "poll_job prov j s")
      case (Raises e s')
      with notC show ?thesis by simp
    next
      case (Returns s')
      have "C \<subseteq> completed_jobs s'"
        using poll_job_completed[of s prov j] Returns Cons.prems by auto
      from Cons.IH[OF this] Returns notC show ?thesis by simp
    qed
  qed
qed

lemma queries_append [simp]: "queries (h @ h') = queries h @ queries h'"
  by (induction h rule: queries.induct) simp_all

lemma queries_summary:
  "length js = length jobs \<Longrightarrow> queries (concat (map2 (\<lambda>j job. [Query j, Print (f job)]) js jobs)) = js"
  by (induction js jobs rule: list_induct2) simp_all

lemma final_summary_fresh:
  "final_summary prov js s0 = Returns s \<Longrightarrow>
     \<exists>jobs. length jobs = length js
        \<and> trace s = trace s0 @
             concat (map2 (\<lambda>j job. [Query j, Print (''  '' @ the (job ''jobName'') @ '': '' @ the (job ''status''))])
                       js jobs)
        \<and> (\<forall>i<length js. \<exists>others.
               prov (trace s0 @
                     take (2 * i)
                       (concat (map2 (\<lambda>j job. [Query j, Print (''  '' @ the (job ''jobName'') @ '': '' @ the (job ''status''))])
                                  js jobs)))
                    (js ! i) = Inr (jobs ! i # others)
               \<and> (jobs ! i) ''jobName'' \<noteq> None \<and> (jobs ! i) ''status'' \<noteq> None)"
proof (induction js arbitrary: s0)
  case Nil
  then show ?case by simp
next
  case (Cons j js)
  let ?line = "\<lambda>j (job :: job). [Query j, Print (''  '' @ the (job ''jobName'') @ '': '' @ the (job ''status''))]"
  from Cons.prems obtain job others job_name status where
    r: "prov (trace s0) j = Inr (job # others)" "job ''jobName'' = Some job_name" "job ''status'' = Some status"
       "final_summary prov js (print_line (''  '' @ job_name @ '': '' @ status) (s0\<lparr>trace := trace s0 @ [Query j]\<rparr>))
          = Returns s"
    by (auto simp: describe_jobs_def split: sum.splits list.splits option.splits)
  let ?s1 = "print_line (''  '' @ job_name @ '': '' @ status) (s0\<lparr>trace := trace s0 @ [Query j]\<rparr>)"
  have t1: "trace ?s1 = trace s0 @ ?line j job" using r(2,3) by (simp add: print_line_def)
  from Cons.IH[OF r(4)] obtain jobs where
    j: "length jobs = length js"
       "trace s = trace ?s1 @ concat (map2 ?line js jobs)"
       "\<forall>i<length js. \<exists>others.
               prov (trace ?s1 @ take (2 * i) (concat (map2 ?line js jobs))) (js ! i) = Inr (jobs ! i # others)
               \<and> (jobs ! i) ''jobName'' \<noteq> None \<and> (jobs ! i) ''status'' \<noteq> None"
    by blast
  have len: "length (job # jobs) = length (j # js)" using j(1) by simp
  have tr: "trace s = trace s0 @ concat (map2 ?line (j # js) (job # jobs))"
    using j(2) t1 by simp
  have each: "\<forall>i<length (j # js). \<exists>others.
               prov (trace s0 @ take (2 * i) (concat (map2 ?line (j # js) (job # jobs)))) ((j # js) ! i)
                 = Inr ((job # jobs) ! i # others)
               \<and> ((job # jobs) ! i) ''jobName'' \<noteq> None \<and> ((job # jobs) ! i) ''status'' \<noteq> None"
  proof (intro allI impI)
    fix i assume i: "i < length (j # js)"
    show "\<exists>others.
               prov (trace s0 @ take (2 * i) (concat (map2 ?line (j # js) (job # jobs)))) ((j # js) ! i)
                 = Inr ((job # jobs) ! i # others)
               \<and> ((job # jobs) ! i) ''jobName'' \<noteq> None \<and> ((job # jobs) ! i) ''status'' \<noteq> None"
    proof (cases i)
      case 0
      with r show ?thesis by simp
    next
      case (Suc k)
      with i have k: "k < length js" by simp
      from j(3) k obtain others' where
        o: "prov (trace ?s1 @ take (2 * k) (concat (map2 ?line js jobs))) (js ! k) = Inr (jobs ! k # others')"
           "(jobs ! k) ''jobName'' \<noteq> None" "(jobs ! k) ''status'' \<noteq> None"
        by blast
      have eq: "trace s0 @ take (2 * i) (concat (map2 ?line (j # js) (job # jobs)))
            = trace ?s1 @ take (2 * k) (concat (map2 ?line js jobs))"
        using Suc t1 by simp
      have p: "prov (trace s0 @ take (2 * i) (concat (map2 ?line (j # js) (job # jobs)))) (js ! k)
                 = Inr (jobs ! k # others')"
        by (simp only: eq o(1))
      have nth: "(j # js) ! i = js ! k" "(job # jobs) ! i = jobs ! k"
        using Suc by simp_all
      show ?thesis unfolding nth using p o(2,3) by blast
    qed
  qed
  from len tr each show ?case by blast
qed

lemma final_summary_queries_prefix:
  "\<exists>evs n. trace (out_state (final_summary prov js s0)) = trace s0 @ evs \<and> queries evs = take n js"
proof (induction js arbitrary: s0)
  case Nil
  show ?case by simp
next
  case (Cons j js)
  show ?case
  proof (cases "final_summary prov (j # js) s0 = Raises IndexError (s0\<lparr>trace := trace s0 @ [Query j]\<rparr>)
              \<or> (\<exists>e. final_summary prov (j # js) s0 = Raises e (s0\<lparr>trace := trace s0 @ [Query j]\<rparr>))")
    case True
    then have "trace (out_state (final_summary prov (j # js) s0)) = trace s0 @ [Query j]
               \<and> queries [Query j] = take 1 (j # js)"
      by auto
    then show ?thesis by blast
  next
    case False
    then obtain l where
      r: "final_summary prov (j # js) s0 = final_summary prov js (print_line l (s0\<lparr>trace := trace s0 @ [Query j]\<rparr>))"
      by (auto simp: describe_jobs_def split: sum.splits list.splits option.splits)
    from Cons.IH[of "print_line l (s0\<lparr>trace := trace s0 @ [Query j]\<rparr>)"] obtain evs n where
      e: "trace (out_state (final_summary prov js (print_line l (s0\<lparr>trace := trace s0 @ [Query j]\<rparr>))))
            = trace (print_line l (s0\<lparr>trace := trace s0 @ [Query j]\<rparr>)) @ evs"
         "queries evs = take n js"
      by blast
    have "trace (out_state (final_summary prov (j # js) s0)) = trace s0 @ ([Query j, Print l] @ evs)
          \<and> queries ([Query j, Print l] @ evs) = take (Suc n) (j # js)"
      using r e by (simp add: print_line_def)
    then show ?thesis by blast
  qed
qed

section \<open>Properties of the tracker\<close>

text \<open>
  C1 (as amended): for pairwise distinct identifiers, if from some number \<open>K\<close> of
  suspensions on the provider reports every job terminal, the function terminates and has
  suspended at most \<open>K\<close> times; it returns normally when moreover the provider always
  answers and the interval is not negative. For the empty list it returns at once: the
  history holds the four fixed lines and no query or suspension.
\<close>

theorem tracker_terminates:
  "(distinct job_ids \<and> (\<forall>h j. j \<in> set job_ids \<and> K \<le> sleeps h \<longrightarrow> reports_terminal prov h j)
      \<longrightarrow> (\<exists>out. wait_for_jobs_completion prov job_ids ci = Some out
              \<and> sleeps (trace (out_state out)) \<le> K
              \<and> ((\<forall>h j. j \<in> set job_ids \<longrightarrow> answers prov h j) \<and> 0 \<le> ci \<longrightarrow> (\<exists>s. out = Returns s))))
   \<and> wait_for_jobs_completion prov [] ci =
       Some (Returns \<lparr>trace = [Print ''Waiting for 0 job(s) to complete...'',
                               Print (''This may take several minutes depending on the workload.'' @ [CHR 0x0A]),
                               Print (CHR 0x0A # '' All 0 job(s) have completed!''),
                               Print (CHR 0x0A # ''Final Status Summary:'')],
                      completed_jobs = {}\<rparr>)"
proof (intro conjI impI)
  assume a: "distinct job_ids \<and> (\<forall>h j. j \<in> set job_ids \<and> K \<le> sleeps h \<longrightarrow> reports_terminal prov h j)"
  then obtain out where out: "wait_for_jobs_completion prov job_ids ci = Some out"
      "sleeps (trace (out_state out)) \<le> K"
    using wait_terminates_within[of job_ids K prov ci] by blast
  have "(\<forall>h j. j \<in> set job_ids \<longrightarrow> answers prov h j) \<and> 0 \<le> ci \<longrightarrow> (\<exists>s. out = Returns s)"
    using wait_answers[OF out(1)] by blast
  with out show "\<exists>out. wait_for_jobs_completion prov job_ids ci = Some out
              \<and> sleeps (trace (out_state out)) \<le> K
              \<and> ((\<forall>h j. j \<in> set job_ids \<longrightarrow> answers prov h j) \<and> 0 \<le> ci \<longrightarrow> (\<exists>s. out = Returns s))"
    by blast
next
  have "poll_loop prov [] ci (initial_state []) = Some (Returns (initial_state []))"
    by (subst poll_loop.simps) simp
  then show "wait_for_jobs_completion prov [] ci =
       Some (Returns \<lparr>trace = [Print ''Waiting for 0 job(s) to complete...'',
                               Print (''This may take several minutes depending on the workload.'' @ [CHR 0x0A]),
                               Print (CHR 0x0A # '' All 0 job(s) have completed!''),
                               Print (CHR 0x0A # ''Final Status Summary:'')],
                      completed_jobs = {}\<rparr>)"
    by (simp add: wait_for_jobs_completion_def initial_state_def print_line_def str_nat_0)
qed

theorem tracker_terminates_witness:
  "distinct [''id-1'', ''id-2'', ''id-3'']
   \<and> (\<exists>out. wait_for_jobs_completion scenario_provider [''id-1'', ''id-2'', ''id-3''] 60 = Some out
         \<and> sleeps (trace (out_state out)) \<le> 1 \<and> (\<exists>s. out = Returns s))"
proof -
  have d: "distinct [''id-1'', ''id-2'', ''id-3'']" by simp
  have t: "\<forall>h j. j \<in> set [''id-1'', ''id-2'', ''id-3''] \<and> 1 \<le> sleeps h \<longrightarrow> reports_terminal scenario_provider h j"
    using scenario_provider_terminal by blast
  have a: "(\<forall>h j. j \<in> set [''id-1'', ''id-2'', ''id-3''] \<longrightarrow> answers scenario_provider h j) \<and> (0::int) \<le> 60"
    using scenario_provider_answers by simp
  from tracker_terminates[of "[''id-1'', ''id-2'', ''id-3'']" 1 scenario_provider 60] d t a
  show ?thesis by blast
qed

text \<open>
  The restriction to distinct identifiers is needed: with the list \<^verbatim>\<open>['id-1', 'id-1']\<close> and every
  job reported SUCCEEDED the function does not terminate.
\<close>

theorem duplicate_ids_counterexample:
  "wait_for_jobs_completion always_succeeded [''id-1'', ''id-1''] 60 = None"
  by (rule wait_diverges) (simp_all add: always_succeeded_terminal)

text \<open>
  C2 (as amended): inside the polling loop a completed identifier is skipped. An iteration
  for it changes nothing; a pass behaves as if the identifier were not in the list; the
  events a pass adds (and those the whole loop adds, when it ends) contain no query for
  it, and it stays in the completed set.
\<close>

theorem completed_job_skipped_by_polling:
  assumes "job_id \<in> completed_jobs s"
  shows "poll_job prov job_id s = Returns s
       \<and> poll_pass prov job_ids s = poll_pass prov (removeAll job_id job_ids) s
       \<and> (\<exists>evs. trace (out_state (loop_body prov job_ids ci s)) = trace s @ evs \<and> Query job_id \<notin> set evs)
       \<and> job_id \<in> completed_jobs (out_state (loop_body prov job_ids ci s))
       \<and> (\<forall>out. poll_loop prov job_ids ci s = Some out \<longrightarrow>
             (\<exists>evs. trace (out_state out) = trace s @ evs \<and> Query job_id \<notin> set evs))"
proof (intro conjI allI impI)
  show "poll_job prov job_id s = Returns s" using assms by (simp add: poll_job_def)
  have "{job_id} \<subseteq> completed_jobs s" using assms by simp
  moreover have "filter (\<lambda>j. j \<notin> {job_id}) job_ids = removeAll job_id job_ids"
    by (induction job_ids) auto
  ultimately show "poll_pass prov job_ids s = poll_pass prov (removeAll job_id job_ids) s"
    using poll_pass_skip[of "{job_id}" s prov job_ids] by simp
  show "\<exists>evs. trace (out_state (loop_body prov job_ids ci s)) = trace s @ evs \<and> Query job_id \<notin> set evs"
    using loop_body_events[of prov job_ids ci s] assms by blast
  show "job_id \<in> completed_jobs (out_state (loop_body prov job_ids ci s))"
    using poll_pass_completed[of s prov job_ids] assms by (auto simp: loop_body_completed)
next
  fix out assume "poll_loop prov job_ids ci s = Some out"
  from poll_loop_events[OF this] assms
  show "\<exists>evs. trace (out_state out) = trace s @ evs \<and> Query job_id \<notin> set evs" by blast
qed

theorem completed_job_skipped_by_polling_witness:
  "''id-3'' \<in> completed_jobs \<lparr>trace = [Sleep 60], completed_jobs = {''id-3''}\<rparr>
   \<and> poll_pass scenario_provider [''id-1'', ''id-2'', ''id-3''] \<lparr>trace = [Sleep 60], completed_jobs = {''id-3''}\<rparr>
       = poll_pass scenario_provider [''id-1'', ''id-2''] \<lparr>trace = [Sleep 60], completed_jobs = {''id-3''}\<rparr>"
  using completed_job_skipped_by_polling[where job_id = "''id-3''"
      and s = "\<lparr>trace = [Sleep 60], completed_jobs = {''id-3''}\<rparr>"
      and prov = scenario_provider and job_ids = "[''id-1'', ''id-2'', ''id-3'']" and ci = 60]
  by simp

text \<open>
  After the loop the final summary does query a completed identifier again: the run for
  one job that is SUCCEEDED at once holds two queries of it.
\<close>

theorem completed_job_queried_again_counterexample:
  "wait_for_jobs_completion always_succeeded [''id-1''] 60 =
     Some (Returns
       \<lparr>trace = [Print ''Waiting for 1 job(s) to complete...'',
                  Print (''This may take several minutes depending on the workload.'' @ [CHR 0x0A]),
                  Query ''id-1'', Print ''Job job-id-1 completed with status: SUCCEEDED'',
                  Print (CHR 0x0A # '' All 1 job(s) have completed!''),
                  Print (CHR 0x0A # ''Final Status Summary:''),
                  Query ''id-1'', Print ''  job-id-1: SUCCEEDED''],
         completed_jobs = {''id-1''}\<rparr>)"
  by (simp add: wait_for_jobs_completion_def poll_loop.simps initial_state_def loop_body_def poll_job_def
        describe_jobs_def print_line_def always_succeeded_def mk_job_def str_nat.simps digit_char_def)

text \<open>
  C3: when the function returns, the history ends with the two fixed lines and then, for
  each identifier in the order supplied, one query followed by one line with the name and
  the status that the provider answered to that very query (the answer at the history up
  to it, not an earlier one). So the summary queries each element of the list exactly
  once, in order, whatever the provider said during polling, and leaves the completed set
  as it is. The function does return when the loop has exited and the provider answers
  every query; and whether the summary ends or raises, the identifiers it has queried are
  an initial part of the list, each once and in order.
\<close>

theorem final_summary_in_submission_order:
  "(wait_for_jobs_completion prov job_ids ci = Some (Returns s) \<longrightarrow>
      (\<exists>s2 jobs summary.
           poll_loop prov job_ids ci (initial_state job_ids) = Some (Returns s2)
         \<and> trace s = trace s2 @
               [Print (CHR 0x0A # '' All '' @ str_nat (length job_ids) @ '' job(s) have completed!''),
                  Print (CHR 0x0A # ''Final Status Summary:'')] @ summary
         \<and> completed_jobs s = completed_jobs s2
         \<and> length jobs = length job_ids
         \<and> summary = concat (map2 (\<lambda>j job. [Query j, Print (''  '' @ the (job ''jobName'') @ '': '' @ the (job ''status''))]) job_ids jobs)
         \<and> (\<forall>i<length job_ids. \<exists>others.
                prov (trace s2 @
                      [Print (CHR 0x0A # '' All '' @ str_nat (length job_ids) @ '' job(s) have completed!''),
                  Print (CHR 0x0A # ''Final Status Summary:'')] @ take (2 * i) summary)
                     (job_ids ! i) = Inr (jobs ! i # others)
                \<and> (jobs ! i) ''jobName'' \<noteq> None \<and> (jobs ! i) ''status'' \<noteq> None)
         \<and> queries summary = job_ids
         \<and> length summary = 2 * length job_ids))
   \<and> (poll_loop prov job_ids ci (initial_state job_ids) = Some (Returns s2)
        \<and> (\<forall>h j. j \<in> set job_ids \<longrightarrow> answers prov h j)
      \<longrightarrow> (\<exists>s. wait_for_jobs_completion prov job_ids ci = Some (Returns s)))
   \<and> (poll_loop prov job_ids ci (initial_state job_ids) = Some (Returns s2) \<longrightarrow>
      (\<exists>out evs n. wait_for_jobs_completion prov job_ids ci = Some out
           \<and> trace (out_state out) = trace s2 @
                 [Print (CHR 0x0A # '' All '' @ str_nat (length job_ids) @ '' job(s) have completed!''),
                  Print (CHR 0x0A # ''Final Status Summary:'')] @ evs
           \<and> queries evs = take n job_ids))"
proof (intro conjI impI)
  assume ret: "wait_for_jobs_completion prov job_ids ci = Some (Returns s)"
  then obtain s2 where
    loop: "poll_loop prov job_ids ci (initial_state job_ids) = Some (Returns s2)"
    and fin: "final_summary prov job_ids
                  (print_line (CHR 0x0A # ''Final Status Summary:'')
                     (print_line (CHR 0x0A # '' All '' @ str_nat (length job_ids) @ '' job(s) have completed!'') s2))
              = Returns s"
    by (auto simp: wait_for_jobs_completion_def split: option.splits outcome.splits)
  let ?fix = "[Print (CHR 0x0A # '' All '' @ str_nat (length job_ids) @ '' job(s) have completed!''),
                  Print (CHR 0x0A # ''Final Status Summary:'')]"
  let ?pre = "trace s2 @ ?fix"
  have pre: "trace (print_line (CHR 0x0A # ''Final Status Summary:'')
                     (print_line (CHR 0x0A # '' All '' @ str_nat (length job_ids) @ '' job(s) have completed!'') s2)) = ?pre"
    by (simp add: print_line_def)
  from final_summary_fresh[OF fin] obtain jobs where
    j: "length jobs = length job_ids"
       "trace s = trace (print_line (CHR 0x0A # ''Final Status Summary:'')
                     (print_line (CHR 0x0A # '' All '' @ str_nat (length job_ids) @ '' job(s) have completed!'') s2)) @
             concat (map2 (\<lambda>j job. [Query j, Print (''  '' @ the (job ''jobName'') @ '': '' @ the (job ''status''))]) job_ids jobs)"
       "\<forall>i<length job_ids. \<exists>others.
               prov (trace (print_line (CHR 0x0A # ''Final Status Summary:'')
                     (print_line (CHR 0x0A # '' All '' @ str_nat (length job_ids) @ '' job(s) have completed!'') s2)) @
                     take (2 * i) (concat (map2 (\<lambda>j job. [Query j, Print (''  '' @ the (job ''jobName'') @ '': '' @ the (job ''status''))]) job_ids jobs)))
                    (job_ids ! i) = Inr (jobs ! i # others)
               \<and> (jobs ! i) ''jobName'' \<noteq> None \<and> (jobs ! i) ''status'' \<noteq> None"
    by blast
  define summary where
    "summary = concat (map2 (\<lambda>j job. [Query j, Print (''  '' @ the (job ''jobName'') @ '': '' @ the (job ''status''))]) job_ids jobs)"
  have len: "length job_ids = length jobs" using j(1) by simp
  have q: "queries summary = job_ids"
    unfolding summary_def using queries_summary[OF len] .
  have l: "length summary = 2 * length job_ids"
    unfolding summary_def using len by (induction job_ids jobs rule: list_induct2) simp_all
  have tr: "trace s = trace s2 @ ?fix @ summary"
    using j(2) unfolding pre summary_def by simp
  have fresh: "\<forall>i<length job_ids. \<exists>others.
                prov (trace s2 @ ?fix @ take (2 * i) summary) (job_ids ! i) = Inr (jobs ! i # others)
                \<and> (jobs ! i) ''jobName'' \<noteq> None \<and> (jobs ! i) ''status'' \<noteq> None"
    using j(3) unfolding pre summary_def by simp
  have same: "completed_jobs s = completed_jobs s2"
    using final_summary_state[of prov job_ids "(print_line (CHR 0x0A # ''Final Status Summary:'')
                     (print_line (CHR 0x0A # '' All '' @ str_nat (length job_ids) @ '' job(s) have completed!'') s2))"] fin
    by (simp add: print_line_def)
  from loop tr same j(1) summary_def fresh q l
  show "(\<exists>s2 jobs summary.
           poll_loop prov job_ids ci (initial_state job_ids) = Some (Returns s2)
         \<and> trace s = trace s2 @
               [Print (CHR 0x0A # '' All '' @ str_nat (length job_ids) @ '' job(s) have completed!''),
                  Print (CHR 0x0A # ''Final Status Summary:'')] @ summary
         \<and> completed_jobs s = completed_jobs s2
         \<and> length jobs = length job_ids
         \<and> summary = concat (map2 (\<lambda>j job. [Query j, Print (''  '' @ the (job ''jobName'') @ '': '' @ the (job ''status''))]) job_ids jobs)
         \<and> (\<forall>i<length job_ids. \<exists>others.
                prov (trace s2 @
                      [Print (CHR 0x0A # '' All '' @ str_nat (length job_ids) @ '' job(s) have completed!''),
                  Print (CHR 0x0A # ''Final Status Summary:'')] @ take (2 * i) summary)
                     (job_ids ! i) = Inr (jobs ! i # others)
                \<and> (jobs ! i) ''jobName'' \<noteq> None \<and> (jobs ! i) ''status'' \<noteq> None)
         \<and> queries summary = job_ids
         \<and> length summary = 2 * length job_ids)"
    by blast
next
  assume a: "poll_loop prov job_ids ci (initial_state job_ids) = Some (Returns s2)
        \<and> (\<forall>h j. j \<in> set job_ids \<longrightarrow> answers prov h j)"
  then obtain s where "final_summary prov job_ids
                  (print_line (CHR 0x0A # ''Final Status Summary:'')
                     (print_line (CHR 0x0A # '' All '' @ str_nat (length job_ids) @ '' job(s) have completed!'') s2))
              = Returns s"
    using final_summary_answers[of job_ids prov] by blast
  with a show "(\<exists>s. wait_for_jobs_completion prov job_ids ci = Some (Returns s))"
    by (simp add: wait_for_jobs_completion_def)
next
  assume loop: "poll_loop prov job_ids ci (initial_state job_ids) = Some (Returns s2)"
  from final_summary_queries_prefix[of prov job_ids "(print_line (CHR 0x0A # ''Final Status Summary:'')
                     (print_line (CHR 0x0A # '' All '' @ str_nat (length job_ids) @ '' job(s) have completed!'') s2))"]
  obtain evs n where
    e: "trace (out_state (final_summary prov job_ids
                  (print_line (CHR 0x0A # ''Final Status Summary:'')
                     (print_line (CHR 0x0A # '' All '' @ str_nat (length job_ids) @ '' job(s) have completed!'') s2))))
        = trace (print_line (CHR 0x0A # ''Final Status Summary:'')
                     (print_line (CHR 0x0A # '' All '' @ str_nat (length job_ids) @ '' job(s) have completed!'') s2)) @ evs"
       "queries evs = take n job_ids"
    by blast
  have "wait_for_jobs_completion prov job_ids ci =
          Some (final_summary prov job_ids
                  (print_line (CHR 0x0A # ''Final Status Summary:'')
                     (print_line (CHR 0x0A # '' All '' @ str_nat (length job_ids) @ '' job(s) have completed!'') s2)))"
    using loop by (simp add: wait_for_jobs_completion_def)
  moreover have "trace (out_state (final_summary prov job_ids
                  (print_line (CHR 0x0A # ''Final Status Summary:'')
                     (print_line (CHR 0x0A # '' All '' @ str_nat (length job_ids) @ '' job(s) have completed!'') s2))))
        = trace s2 @
               [Print (CHR 0x0A # '' All '' @ str_nat (length job_ids) @ '' job(s) have completed!''),
                  Print (CHR 0x0A # ''Final Status Summary:'')] @ evs"
    using e(1) by (simp add: print_line_def)
  ultimately show "(\<exists>out evs n. wait_for_jobs_completion prov job_ids ci = Some out
           \<and> trace (out_state out) = trace s2 @
                 [Print (CHR 0x0A # '' All '' @ str_nat (length job_ids) @ '' job(s) have completed!''),
                  Print (CHR 0x0A # ''Final Status Summary:'')] @ evs
           \<and> queries evs = take n job_ids)"
    using e(2) by blast
qed

theorem final_summary_in_submission_order_witness:
  "\<exists>s2 jobs summary.
      poll_loop always_succeeded [''id-2'', ''id-1''] 5 (initial_state [''id-2'', ''id-1'']) = Some (Returns s2)
    \<and> [Print ''Waiting for 2 job(s) to complete...'',
        Print (''This may take several minutes depending on the workload.'' @ [CHR 0x0A]),
        Query ''id-2'', Print ''Job job-id-2 completed with status: SUCCEEDED'',
        Query ''id-1'', Print ''Job job-id-1 completed with status: SUCCEEDED'',
        Print (CHR 0x0A # '' All 2 job(s) have completed!''),
        Print (CHR 0x0A # ''Final Status Summary:''),
        Query ''id-2'', Print ''  job-id-2: SUCCEEDED'',
        Query ''id-1'', Print ''  job-id-1: SUCCEEDED'']
       = trace s2 @
              [Print (CHR 0x0A # '' All '' @ str_nat (length [''id-2'', ''id-1'']) @ '' job(s) have completed!''),
               Print (CHR 0x0A # ''Final Status Summary:'')] @ summary
    \<and> length (jobs :: job list) = length [''id-2'', ''id-1'']
    \<and> queries summary = [''id-2'', ''id-1'']
    \<and> length summary = 2 * length [''id-2'', ''id-1'']"
proof -
  have run: "wait_for_jobs_completion always_succeeded [''id-2'', ''id-1''] 5 =
     Some (Returns
       \<lparr>trace = [Print ''Waiting for 2 job(s) to complete...'',
        Print (''This may take several minutes depending on the workload.'' @ [CHR 0x0A]),
        Query ''id-2'', Print ''Job job-id-2 completed with status: SUCCEEDED'',
        Query ''id-1'', Print ''Job job-id-1 completed with status: SUCCEEDED'',
        Print (CHR 0x0A # '' All 2 job(s) have completed!''),
        Print (CHR 0x0A # ''Final Status Summary:''),
        Query ''id-2'', Print ''  job-id-2: SUCCEEDED'',
        Query ''id-1'', Print ''  job-id-1: SUCCEEDED''],
         completed_jobs = {''id-1'', ''id-2''}\<rparr>)"
    by (simp add: wait_for_jobs_completion_def poll_loop.simps initial_state_def loop_body_def poll_job_def
        describe_jobs_def print_line_def always_succeeded_def mk_job_def str_nat.simps digit_char_def)
  from final_summary_in_submission_order[THEN conjunct1, rule_format, OF run]
  show ?thesis
    apply (elim exE conjE)
    subgoal for s2 jobs summary
      apply (rule exI[of _ s2], rule exI[of _ jobs], rule exI[of _ summary])
      apply (simp only: state.simps)
      done
    done
qed

text \<open>
  C4: three jobs, reported RUNNING, RUNNING, SUCCEEDED before the first suspension and
  SUCCEEDED, FAILED (reason OOM), SUCCEEDED after it. The body of the loop runs exactly
  twice: the first pass ends with one job completed and suspends, the second ends with all
  three completed and the loop exits, so there is a loop head after two passes and none
  after three. The second pass does not query the third job again,
  the reason OOM is printed for the second job, and the summary lists SUCCEEDED, FAILED,
  SUCCEEDED in the order of submission.
\<close>

theorem three_job_scenario:
  "loop_body scenario_provider [''id-1'', ''id-2'', ''id-3''] 60 (initial_state [''id-1'', ''id-2'', ''id-3'']) =
     Returns
       \<lparr>trace = [Print ''Waiting for 3 job(s) to complete...'',
                  Print (''This may take several minutes depending on the workload.'' @ [CHR 0x0A]),
                  Query ''id-1'', Print ''Job job-1 is RUNNING'',
                  Query ''id-2'', Print ''Job job-2 is RUNNING'',
                  Query ''id-3'', Print ''Job job-3 completed with status: SUCCEEDED'',
                  Print ''[waiting 60 seconds before next check...]'', Sleep 60, Print []],
         completed_jobs = {''id-3''}\<rparr>
   \<and> loop_body scenario_provider [''id-1'', ''id-2'', ''id-3''] 60
       \<lparr>trace = [Print ''Waiting for 3 job(s) to complete...'',
                  Print (''This may take several minutes depending on the workload.'' @ [CHR 0x0A]),
                  Query ''id-1'', Print ''Job job-1 is RUNNING'',
                  Query ''id-2'', Print ''Job job-2 is RUNNING'',
                  Query ''id-3'', Print ''Job job-3 completed with status: SUCCEEDED'',
                  Print ''[waiting 60 seconds before next check...]'', Sleep 60, Print []],
         completed_jobs = {''id-3''}\<rparr> =
     Returns
       \<lparr>trace = [Print ''Waiting for 3 job(s) to complete...'',
                  Print (''This may take several minutes depending on the workload.'' @ [CHR 0x0A]),
                  Query ''id-1'', Print ''Job job-1 is RUNNING'',
                  Query ''id-2'', Print ''Job job-2 is RUNNING'',
                  Query ''id-3'', Print ''Job job-3 completed with status: SUCCEEDED'',
                  Print ''[waiting 60 seconds before next check...]'', Sleep 60, Print [],
                  Query ''id-1'', Print ''Job job-1 completed with status: SUCCEEDED'',
                  Query ''id-2'', Print ''Job job-2 completed with status: FAILED'',
                  Print ''  Failure reason: OOM''],
         completed_jobs = {''id-2'', ''id-1'', ''id-3''}\<rparr>
   \<and> poll_loop scenario_provider [''id-1'', ''id-2'', ''id-3''] 60 (initial_state [''id-1'', ''id-2'', ''id-3'']) =
     Some (Returns
       \<lparr>trace = [Print ''Waiting for 3 job(s) to complete...'',
                  Print (''This may take several minutes depending on the workload.'' @ [CHR 0x0A]),
                  Query ''id-1'', Print ''Job job-1 is RUNNING'',
                  Query ''id-2'', Print ''Job job-2 is RUNNING'',
                  Query ''id-3'', Print ''Job job-3 completed with status: SUCCEEDED'',
                  Print ''[waiting 60 seconds before next check...]'', Sleep 60, Print [],
                  Query ''id-1'', Print ''Job job-1 completed with status: SUCCEEDED'',
                  Query ''id-2'', Print ''Job job-2 completed with status: FAILED'',
                  Print ''  Failure reason: OOM''],
         completed_jobs = {''id-2'', ''id-1'', ''id-3''}\<rparr>)
   \<and> wait_for_jobs_completion scenario_provider [''id-1'', ''id-2'', ''id-3''] 60 =
     Some (Returns
       \<lparr>trace = [Print ''Waiting for 3 job(s) to complete...'',
                  Print (''This may take several minutes depending on the workload.'' @ [CHR 0x0A]),
                  Query ''id-1'', Print ''Job job-1 is RUNNING'',
                  Query ''id-2'', Print ''Job job-2 is RUNNING'',
                  Query ''id-3'', Print ''Job job-3 completed with status: SUCCEEDED'',
                  Print ''[waiting 60 seconds before next check...]'', Sleep 60, Print [],
                  Query ''id-1'', Print ''Job job-1 completed with status: SUCCEEDED'',
                  Query ''id-2'', Print ''Job job-2 completed with status: FAILED'',
                  Print ''  Failure reason: OOM'',
                  Print (CHR 0x0A # '' All 3 job(s) have completed!''),
                  Print (CHR 0x0A # ''Final Status Summary:''),
                  Query ''id-1'', Print ''  job-1: SUCCEEDED'',
                  Query ''id-2'', Print ''  job-2: FAILED'',
                  Query ''id-3'', Print ''  job-3: SUCCEEDED''],
         completed_jobs = {''id-2'', ''id-1'', ''id-3''}\<rparr>)
   \<and> loop_head scenario_provider [''id-1'', ''id-2'', ''id-3''] 60 2 =
     Some
       \<lparr>trace = [Print ''Waiting for 3 job(s) to complete...'',
                  Print (''This may take several minutes depending on the workload.'' @ [CHR 0x0A]),
                  Query ''id-1'', Print ''Job job-1 is RUNNING'',
                  Query ''id-2'', Print ''Job job-2 is RUNNING'',
                  Query ''id-3'', Print ''Job job-3 completed with status: SUCCEEDED'',
                  Print ''[waiting 60 seconds before next check...]'', Sleep 60, Print [],
                  Query ''id-1'', Print ''Job job-1 completed with status: SUCCEEDED'',
                  Query ''id-2'', Print ''Job job-2 completed with status: FAILED'',
                  Print ''  Failure reason: OOM''],
         completed_jobs = {''id-2'', ''id-1'', ''id-3''}\<rparr>
   \<and> loop_head scenario_provider [''id-1'', ''id-2'', ''id-3''] 60 3 = None"
proof -
  have pass1: "loop_body scenario_provider [''id-1'', ''id-2'', ''id-3''] 60 (initial_state [''id-1'', ''id-2'', ''id-3'']) =
     Returns
       \<lparr>trace = [Print ''Waiting for 3 job(s) to complete...'',
                  Print (''This may take several minutes depending on the workload.'' @ [CHR 0x0A]),
                  Query ''id-1'', Print ''Job job-1 is RUNNING'',
                  Query ''id-2'', Print ''Job job-2 is RUNNING'',
                  Query ''id-3'', Print ''Job job-3 completed with status: SUCCEEDED'',
                  Print ''[waiting 60 seconds before next check...]'', Sleep 60, Print []],
         completed_jobs = {''id-3''}\<rparr>"
    by (simp add: initial_state_def loop_body_def poll_job_def describe_jobs_def print_line_def sleep_def scenario_provider_def mk_job_def sleeps_def str_int_def str_nat.simps digit_char_def)
  have pass2: "loop_body scenario_provider [''id-1'', ''id-2'', ''id-3''] 60
       \<lparr>trace = [Print ''Waiting for 3 job(s) to complete...'',
                  Print (''This may take several minutes depending on the workload.'' @ [CHR 0x0A]),
                  Query ''id-1'', Print ''Job job-1 is RUNNING'',
                  Query ''id-2'', Print ''Job job-2 is RUNNING'',
                  Query ''id-3'', Print ''Job job-3 completed with status: SUCCEEDED'',
                  Print ''[waiting 60 seconds before next check...]'', Sleep 60, Print []],
         completed_jobs = {''id-3''}\<rparr> =
     Returns
       \<lparr>trace = [Print ''Waiting for 3 job(s) to complete...'',
                  Print (''This may take several minutes depending on the workload.'' @ [CHR 0x0A]),
                  Query ''id-1'', Print ''Job job-1 is RUNNING'',
                  Query ''id-2'', Print ''Job job-2 is RUNNING'',
                  Query ''id-3'', Print ''Job job-3 completed with status: SUCCEEDED'',
                  Print ''[waiting 60 seconds before next check...]'', Sleep 60, Print [],
                  Query ''id-1'', Print ''Job job-1 completed with status: SUCCEEDED'',
                  Query ''id-2'', Print ''Job job-2 completed with status: FAILED'',
                  Print ''  Failure reason: OOM''],
         completed_jobs = {''id-2'', ''id-1'', ''id-3''}\<rparr>"
    by (simp add: initial_state_def loop_body_def poll_job_def describe_jobs_def print_line_def sleep_def scenario_provider_def mk_job_def sleeps_def str_int_def str_nat.simps digit_char_def)
  have exit: "poll_loop scenario_provider [''id-1'', ''id-2'', ''id-3''] 60
       \<lparr>trace = [Print ''Waiting for 3 job(s) to complete...'',
                  Print (''This may take several minutes depending on the workload.'' @ [CHR 0x0A]),
                  Query ''id-1'', Print ''Job job-1 is RUNNING'',
                  Query ''id-2'', Print ''Job job-2 is RUNNING'',
                  Query ''id-3'', Print ''Job job-3 completed with status: SUCCEEDED'',
                  Print ''[waiting 60 seconds before next check...]'', Sleep 60, Print [],
                  Query ''id-1'', Print ''Job job-1 completed with status: SUCCEEDED'',
                  Query ''id-2'', Print ''Job job-2 completed with status: FAILED'',
                  Print ''  Failure reason: OOM''],
         completed_jobs = {''id-2'', ''id-1'', ''id-3''}\<rparr> =
     Some (Returns
       \<lparr>trace = [Print ''Waiting for 3 job(s) to complete...'',
                  Print (''This may take several minutes depending on the workload.'' @ [CHR 0x0A]),
                  Query ''id-1'', Print ''Job job-1 is RUNNING'',
                  Query ''id-2'', Print ''Job job-2 is RUNNING'',
                  Query ''id-3'', Print ''Job job-3 completed with status: SUCCEEDED'',
                  Print ''[waiting 60 seconds before next check...]'', Sleep 60, Print [],
                  Query ''id-1'', Print ''Job job-1 completed with status: SUCCEEDED'',
                  Query ''id-2'', Print ''Job job-2 completed with status: FAILED'',
                  Print ''  Failure reason: OOM''],
         completed_jobs = {''id-2'', ''id-1'', ''id-3''}\<rparr>)"
    by (subst poll_loop.simps) simp
  have enter1: "card (completed_jobs (initial_state [''id-1'', ''id-2'', ''id-3''])) < length [''id-1'', ''id-2'', ''id-3'']"
    by (simp add: initial_state_simps)
  have loop: "poll_loop scenario_provider [''id-1'', ''id-2'', ''id-3''] 60 (initial_state [''id-1'', ''id-2'', ''id-3'']) =
     Some (Returns
       \<lparr>trace = [Print ''Waiting for 3 job(s) to complete...'',
                  Print (''This may take several minutes depending on the workload.'' @ [CHR 0x0A]),
                  Query ''id-1'', Print ''Job job-1 is RUNNING'',
                  Query ''id-2'', Print ''Job job-2 is RUNNING'',
                  Query ''id-3'', Print ''Job job-3 completed with status: SUCCEEDED'',
                  Print ''[waiting 60 seconds before next check...]'', Sleep 60, Print [],
                  Query ''id-1'', Print ''Job job-1 completed with status: SUCCEEDED'',
                  Query ''id-2'', Print ''Job job-2 completed with status: FAILED'',
                  Print ''  Failure reason: OOM''],
         completed_jobs = {''id-2'', ''id-1'', ''id-3''}\<rparr>)"
    by (subst poll_loop.simps, simp only: enter1 if_True pass1 outcome.case,
        subst poll_loop.simps, simp only: pass2 outcome.case exit, simp)
  have summary: "wait_for_jobs_completion scenario_provider [''id-1'', ''id-2'', ''id-3''] 60 =
     Some (Returns
       \<lparr>trace = [Print ''Waiting for 3 job(s) to complete...'',
                  Print (''This may take several minutes depending on the workload.'' @ [CHR 0x0A]),
                  Query ''id-1'', Print ''Job job-1 is RUNNING'',
                  Query ''id-2'', Print ''Job job-2 is RUNNING'',
                  Query ''id-3'', Print ''Job job-3 completed with status: SUCCEEDED'',
                  Print ''[waiting 60 seconds before next check...]'', Sleep 60, Print [],
                  Query ''id-1'', Print ''Job job-1 completed with status: SUCCEEDED'',
                  Query ''id-2'', Print ''Job job-2 completed with status: FAILED'',
                  Print ''  Failure reason: OOM'',
                  Print (CHR 0x0A # '' All 3 job(s) have completed!''),
                  Print (CHR 0x0A # ''Final Status Summary:''),
                  Query ''id-1'', Print ''  job-1: SUCCEEDED'',
                  Query ''id-2'', Print ''  job-2: FAILED'',
                  Query ''id-3'', Print ''  job-3: SUCCEEDED''],
         completed_jobs = {''id-2'', ''id-1'', ''id-3''}\<rparr>)"
    by (simp add: wait_for_jobs_completion_def loop describe_jobs_def print_line_def
          scenario_provider_def mk_job_def sleeps_def str_nat.simps digit_char_def)
  have head1: "loop_head scenario_provider [''id-1'', ''id-2'', ''id-3''] 60 (Suc 0) =
     Some
       \<lparr>trace = [Print ''Waiting for 3 job(s) to complete...'',
                  Print (''This may take several minutes depending on the workload.'' @ [CHR 0x0A]),
                  Query ''id-1'', Print ''Job job-1 is RUNNING'',
                  Query ''id-2'', Print ''Job job-2 is RUNNING'',
                  Query ''id-3'', Print ''Job job-3 completed with status: SUCCEEDED'',
                  Print ''[waiting 60 seconds before next check...]'', Sleep 60, Print []],
         completed_jobs = {''id-3''}\<rparr>"
    by (simp only: loop_head.simps option.case enter1 if_True pass1 outcome.case)
  have enter2: "card (completed_jobs
       \<lparr>trace = [Print ''Waiting for 3 job(s) to complete...'',
                  Print (''This may take several minutes depending on the workload.'' @ [CHR 0x0A]),
                  Query ''id-1'', Print ''Job job-1 is RUNNING'',
                  Query ''id-2'', Print ''Job job-2 is RUNNING'',
                  Query ''id-3'', Print ''Job job-3 completed with status: SUCCEEDED'',
                  Print ''[waiting 60 seconds before next check...]'', Sleep 60, Print []],
         completed_jobs = {''id-3''}\<rparr>) < length [''id-1'', ''id-2'', ''id-3'']"
    by simp
  have head2: "loop_head scenario_provider [''id-1'', ''id-2'', ''id-3''] 60 (Suc (Suc 0)) =
     Some
       \<lparr>trace = [Print ''Waiting for 3 job(s) to complete...'',
                  Print (''This may take several minutes depending on the workload.'' @ [CHR 0x0A]),
                  Query ''id-1'', Print ''Job job-1 is RUNNING'',
                  Query ''id-2'', Print ''Job job-2 is RUNNING'',
                  Query ''id-3'', Print ''Job job-3 completed with status: SUCCEEDED'',
                  Print ''[waiting 60 seconds before next check...]'', Sleep 60, Print [],
                  Query ''id-1'', Print ''Job job-1 completed with status: SUCCEEDED'',
                  Query ''id-2'', Print ''Job job-2 completed with status: FAILED'',
                  Print ''  Failure reason: OOM''],
         completed_jobs = {''id-2'', ''id-1'', ''id-3''}\<rparr>"
    by (subst loop_head.simps, simp only: head1 option.case enter2 if_True pass2 outcome.case)
  have leave: "\<not> card (completed_jobs
       \<lparr>trace = [Print ''Waiting for 3 job(s) to complete...'',
                  Print (''This may take several minutes depending on the workload.'' @ [CHR 0x0A]),
                  Query ''id-1'', Print ''Job job-1 is RUNNING'',
                  Query ''id-2'', Print ''Job job-2 is RUNNING'',
                  Query ''id-3'', Print ''Job job-3 completed with status: SUCCEEDED'',
                  Print ''[waiting 60 seconds before next check...]'', Sleep 60, Print [],
                  Query ''id-1'', Print ''Job job-1 completed with status: SUCCEEDED'',
                  Query ''id-2'', Print ''Job job-2 completed with status: FAILED'',
                  Print ''  Failure reason: OOM''],
         completed_jobs = {''id-2'', ''id-1'', ''id-3''}\<rparr>) < length [''id-1'', ''id-2'', ''id-3'']"
    by simp
  have head3: "loop_head scenario_provider [''id-1'', ''id-2'', ''id-3''] 60 (Suc (Suc (Suc 0))) = None"
    by (subst loop_head.simps, simp only: head2 option.case leave if_False)
  have two: "loop_head scenario_provider [''id-1'', ''id-2'', ''id-3''] 60 2 =
     Some
       \<lparr>trace = [Print ''Waiting for 3 job(s) to complete...'',
                  Print (''This may take several minutes depending on the workload.'' @ [CHR 0x0A]),
                  Query ''id-1'', Print ''Job job-1 is RUNNING'',
                  Query ''id-2'', Print ''Job job-2 is RUNNING'',
                  Query ''id-3'', Print ''Job job-3 completed with status: SUCCEEDED'',
                  Print ''[waiting 60 seconds before next check...]'', Sleep 60, Print [],
                  Query ''id-1'', Print ''Job job-1 completed with status: SUCCEEDED'',
                  Query ''id-2'', Print ''Job job-2 completed with status: FAILED'',
                  Print ''  Failure reason: OOM''],
         completed_jobs = {''id-2'', ''id-1'', ''id-3''}\<rparr>"
    using head2 by (simp only: numeral_2_eq_2)
  have three: "loop_head scenario_provider [''id-1'', ''id-2'', ''id-3''] 60 3 = None"
    using head3 by (simp only: numeral_3_eq_3)
  from pass1 pass2 loop summary two three show ?thesis by blast
qed

text \<open>
  C5: a single job that the provider reports SUCCEEDED at the first query. The body of the
  loop runs once, adds the query and the status line to the history and does not suspend;
  the loop exits with that state (there is a loop head after one pass and none after two).
  The whole function is then the final summary run on the history of that one pass and the
  two fixed lines; when the provider answers the summary's query, the function returns
  with exactly the events of one pass and of the summary, none of them a suspension. In
  general the body suspends only when the pass leaves the completed set smaller than the
  list: otherwise it returns the state of the pass unchanged.
\<close>

theorem single_succeeded_job_one_pass:
  assumes "prov (trace (initial_state [job_id])) job_id = Inr (job # others)"
    and "job ''jobName'' = Some job_name"
    and "job ''status'' = Some ''SUCCEEDED''"
  shows "loop_body prov [job_id] ci (initial_state [job_id]) =
           Returns
             ((initial_state [job_id])
              \<lparr>trace := trace (initial_state [job_id]) @
                 [Query job_id, Print (''Job '' @ job_name @ '' completed with status: SUCCEEDED'')],
               completed_jobs := {job_id}\<rparr>)
       \<and> poll_loop prov [job_id] ci (initial_state [job_id]) =
           Some (Returns
             ((initial_state [job_id])
              \<lparr>trace := trace (initial_state [job_id]) @
                 [Query job_id, Print (''Job '' @ job_name @ '' completed with status: SUCCEEDED'')],
               completed_jobs := {job_id}\<rparr>))
       \<and> loop_head prov [job_id] ci 1 =
           Some
             ((initial_state [job_id])
              \<lparr>trace := trace (initial_state [job_id]) @
                 [Query job_id, Print (''Job '' @ job_name @ '' completed with status: SUCCEEDED'')],
               completed_jobs := {job_id}\<rparr>)
       \<and> loop_head prov [job_id] ci 2 = None
       \<and> wait_for_jobs_completion prov [job_id] ci =
           Some (final_summary prov [job_id]
                   \<lparr>trace = [Print ''Waiting for 1 job(s) to complete...'',
                Print (''This may take several minutes depending on the workload.'' @ [CHR 0x0A]),
                Query job_id, Print (''Job '' @ job_name @ '' completed with status: SUCCEEDED''),
                Print (CHR 0x0A # '' All 1 job(s) have completed!''),
                Print (CHR 0x0A # ''Final Status Summary:'')],
                    completed_jobs = {job_id}\<rparr>)
       \<and> (\<forall>job' others' job_name' status'.
             prov [Print ''Waiting for 1 job(s) to complete...'',
                Print (''This may take several minutes depending on the workload.'' @ [CHR 0x0A]),
                Query job_id, Print (''Job '' @ job_name @ '' completed with status: SUCCEEDED''),
                Print (CHR 0x0A # '' All 1 job(s) have completed!''),
                Print (CHR 0x0A # ''Final Status Summary:'')] job_id = Inr (job' # others')
             \<and> job' ''jobName'' = Some job_name' \<and> job' ''status'' = Some status'
           \<longrightarrow> wait_for_jobs_completion prov [job_id] ci =
                 Some (Returns
                   \<lparr>trace = [Print ''Waiting for 1 job(s) to complete...'',
                Print (''This may take several minutes depending on the workload.'' @ [CHR 0x0A]),
                Query job_id, Print (''Job '' @ job_name @ '' completed with status: SUCCEEDED''),
                Print (CHR 0x0A # '' All 1 job(s) have completed!''),
                Print (CHR 0x0A # ''Final Status Summary:'')] @
                      [Query job_id, Print (''  '' @ job_name' @ '': '' @ status')],
                    completed_jobs = {job_id}\<rparr>))
       \<and> (\<exists>out. wait_for_jobs_completion prov [job_id] ci = Some out \<and> sleeps (trace (out_state out)) = 0)
       \<and> (\<forall>job_ids s s1. poll_pass prov job_ids s = Returns s1 \<and> \<not> card (completed_jobs s1) < length job_ids
             \<longrightarrow> loop_body prov job_ids ci s = Returns s1)"
proof -
  let ?S = "((initial_state [job_id])
              \<lparr>trace := trace (initial_state [job_id]) @
                 [Query job_id, Print (''Job '' @ job_name @ '' completed with status: SUCCEEDED'')],
               completed_jobs := {job_id}\<rparr>)"
  let ?H = "[Print ''Waiting for 1 job(s) to complete...'',
                Print (''This may take several minutes depending on the workload.'' @ [CHR 0x0A]),
                Query job_id, Print (''Job '' @ job_name @ '' completed with status: SUCCEEDED''),
                Print (CHR 0x0A # '' All 1 job(s) have completed!''),
                Print (CHR 0x0A # ''Final Status Summary:'')]"
  have enter: "card (completed_jobs (initial_state [job_id])) < length [job_id]"
    by (simp add: initial_state_simps)
  have leave: "\<not> card (completed_jobs ?S) < length [job_id]"
    by simp
  have body: "loop_body prov [job_id] ci (initial_state [job_id]) = Returns ?S"
    using assms
    by (simp add: loop_body_def poll_job_def describe_jobs_def print_line_def initial_state_simps)
  have exit: "poll_loop prov [job_id] ci ?S = Some (Returns ?S)"
    by (subst poll_loop.simps) simp
  have "poll_loop prov [job_id] ci (initial_state [job_id]) = poll_loop prov [job_id] ci ?S"
    by (subst poll_loop.simps) (simp add: initial_state_simps body)
  with exit have loop: "poll_loop prov [job_id] ci (initial_state [job_id]) = Some (Returns ?S)"
    by simp
  have head1: "loop_head prov [job_id] ci (Suc 0) = Some ?S"
    by (simp only: loop_head.simps option.case enter if_True body outcome.case)
  have head2: "loop_head prov [job_id] ci (Suc (Suc 0)) = None"
    by (subst loop_head.simps, simp only: head1 option.case leave if_False)
  have one: "loop_head prov [job_id] ci 1 = Some ?S"
    using head1 by simp
  have two: "loop_head prov [job_id] ci 2 = None"
    using head2 by (simp only: numeral_2_eq_2)
  have after: "print_line (CHR 0x0A # ''Final Status Summary:'')
                 (print_line (CHR 0x0A # '' All '' @ str_nat (length [job_id]) @ '' job(s) have completed!'') ?S)
               = \<lparr>trace = ?H, completed_jobs = {job_id}\<rparr>"
    by (simp add: print_line_def initial_state_1 str_nat.simps digit_char_def)
  have whole: "wait_for_jobs_completion prov [job_id] ci =
           Some (final_summary prov [job_id] \<lparr>trace = ?H, completed_jobs = {job_id}\<rparr>)"
    by (simp only: wait_for_jobs_completion_def loop option.case outcome.case after)
  have answered: "\<forall>job' others' job_name' status'.
             prov ?H job_id = Inr (job' # others')
             \<and> job' ''jobName'' = Some job_name' \<and> job' ''status'' = Some status'
           \<longrightarrow> wait_for_jobs_completion prov [job_id] ci =
                 Some (Returns
                   \<lparr>trace = ?H @ [Query job_id, Print (''  '' @ job_name' @ '': '' @ status')],
                    completed_jobs = {job_id}\<rparr>)"
    by (simp add: whole describe_jobs_def print_line_def)
  have "sleeps (trace ?S) = 0"
    by (simp add: initial_state_def print_line_def)
  with wait_after_loop[OF loop]
  have nosleep: "\<exists>out. wait_for_jobs_completion prov [job_id] ci = Some out \<and> sleeps (trace (out_state out)) = 0"
    by simp
  have gen: "\<forall>job_ids s s1. poll_pass prov job_ids s = Returns s1 \<and> \<not> card (completed_jobs s1) < length job_ids
             \<longrightarrow> loop_body prov job_ids ci s = Returns s1"
    by (simp add: loop_body_def)
  from body loop one two whole answered nosleep gen show ?thesis by blast
qed

theorem single_succeeded_job_one_pass_witness:
  "poll_loop always_succeeded [''id-7''] 60 (initial_state [''id-7'']) =
     Some (Returns
       \<lparr>trace = [Print ''Waiting for 1 job(s) to complete...'',
                  Print (''This may take several minutes depending on the workload.'' @ [CHR 0x0A]),
                  Query ''id-7'', Print ''Job job-id-7 completed with status: SUCCEEDED''],
         completed_jobs = {''id-7''}\<rparr>)
   \<and> wait_for_jobs_completion always_succeeded [''id-7''] 60 =
     Some (Returns
       \<lparr>trace = [Print ''Waiting for 1 job(s) to complete...'',
                  Print (''This may take several minutes depending on the workload.'' @ [CHR 0x0A]),
                  Query ''id-7'', Print ''Job job-id-7 completed with status: SUCCEEDED'',
                  Print (CHR 0x0A # '' All 1 job(s) have completed!''),
                  Print (CHR 0x0A # ''Final Status Summary:''),
                  Query ''id-7'', Print ''  job-id-7: SUCCEEDED''],
         completed_jobs = {''id-7''}\<rparr>)"
proof -
  have a: "always_succeeded (trace (initial_state [''id-7''])) ''id-7'' = Inr (mk_job ''job-id-7'' ''SUCCEEDED'' # [])"
    by (simp add: always_succeeded_def)
  have b: "mk_job ''job-id-7'' ''SUCCEEDED'' ''jobName'' = Some ''job-id-7''"
    and c: "mk_job ''job-id-7'' ''SUCCEEDED'' ''status'' = Some ''SUCCEEDED''"
    by (simp_all add: mk_job_def)
  note t = single_succeeded_job_one_pass[where prov = always_succeeded and job_id = "''id-7''"
      and job = "mk_job ''job-id-7'' ''SUCCEEDED''" and others = "[]" and job_name = "''job-id-7''"
      and ci = 60, OF a b c]
  have loop: "poll_loop always_succeeded [''id-7''] 60 (initial_state [''id-7'']) =
     Some (Returns
       \<lparr>trace = [Print ''Waiting for 1 job(s) to complete...'',
                  Print (''This may take several minutes depending on the workload.'' @ [CHR 0x0A]),
                  Query ''id-7'', Print ''Job job-id-7 completed with status: SUCCEEDED''],
         completed_jobs = {''id-7''}\<rparr>)"
    using t[THEN conjunct2, THEN conjunct1] by (simp add: initial_state_1)
  have whole: "wait_for_jobs_completion always_succeeded [''id-7''] 60 =
     Some (Returns
       \<lparr>trace = [Print ''Waiting for 1 job(s) to complete...'',
                  Print (''This may take several minutes depending on the workload.'' @ [CHR 0x0A]),
                  Query ''id-7'', Print ''Job job-id-7 completed with status: SUCCEEDED'',
                  Print (CHR 0x0A # '' All 1 job(s) have completed!''),
                  Print (CHR 0x0A # ''Final Status Summary:''),
                  Query ''id-7'', Print ''  job-id-7: SUCCEEDED''],
         completed_jobs = {''id-7''}\<rparr>)"
    using t[THEN conjunct2, THEN conjunct2, THEN conjunct2, THEN conjunct2, THEN conjunct2, THEN conjunct1,
            THEN spec, THEN spec, THEN spec, THEN spec,
            of "mk_job ''job-id-7'' ''SUCCEEDED''" "[]" "''job-id-7''" "''SUCCEEDED''"]
    by (simp add: always_succeeded_def mk_job_def)
  from loop whole show ?thesis by simp
qed



text \<open>
  C7: an exception raised by \<^verbatim>\<open>describe_jobs\<close> leaves the function as it is. Whatever pass
  the run is in, if the jobs before \<open>job_id\<close> in that pass were handled and the query for
  \<open>job_id\<close> raises \<open>e\<close>, the whole function raises \<open>e\<close>; the history ends with that
  single query: nothing is printed, no suspension follows and the query is not repeated.
  The same holds for a query of the final summary.
\<close>

theorem provider_error_propagates:
  "(loop_head prov job_ids ci n = Some s
      \<and> card (completed_jobs s) < length job_ids
      \<and> job_ids = before @ job_id # rest
      \<and> poll_pass prov before s = Returns s1
      \<and> job_id \<notin> completed_jobs s1
      \<and> prov (trace s1) job_id = Inl e
    \<longrightarrow> wait_for_jobs_completion prov job_ids ci = Some (Raises e (s1\<lparr>trace := trace s1 @ [Query job_id]\<rparr>)))
   \<and> (poll_loop prov job_ids ci (initial_state job_ids) = Some (Returns s2)
      \<and> job_ids = before @ job_id # rest
      \<and> final_summary prov before
            (print_line (CHR 0x0A # ''Final Status Summary:'')
               (print_line (CHR 0x0A # '' All '' @ str_nat (length job_ids) @ '' job(s) have completed!'') s2))
          = Returns s3
      \<and> prov (trace s3) job_id = Inl e
    \<longrightarrow> wait_for_jobs_completion prov job_ids ci = Some (Raises e (s3\<lparr>trace := trace s3 @ [Query job_id]\<rparr>)))"
proof (intro conjI impI)
  assume a: "loop_head prov job_ids ci n = Some s
      \<and> card (completed_jobs s) < length job_ids
      \<and> job_ids = before @ job_id # rest
      \<and> poll_pass prov before s = Returns s1
      \<and> job_id \<notin> completed_jobs s1
      \<and> prov (trace s1) job_id = Inl e"
  then have "poll_job prov job_id s1 = Raises e (s1\<lparr>trace := trace s1 @ [Query job_id]\<rparr>)"
    by (simp add: poll_job_def describe_jobs_def)
  moreover from a have "poll_pass prov before s = Returns s1" by blast
  ultimately have "poll_pass prov (before @ job_id # rest) s = Raises e (s1\<lparr>trace := trace s1 @ [Query job_id]\<rparr>)"
    by (simp add: poll_pass_append)
  moreover from a have "job_ids = before @ job_id # rest" by blast
  ultimately have "poll_pass prov job_ids s = Raises e (s1\<lparr>trace := trace s1 @ [Query job_id]\<rparr>)"
    by simp
  then have lb: "loop_body prov job_ids ci s = Raises e (s1\<lparr>trace := trace s1 @ [Query job_id]\<rparr>)"
    by (simp add: loop_body_def)
  from a have cond: "card (completed_jobs s) < length job_ids"
    and head: "loop_head prov job_ids ci n = Some s" by blast+
  from cond lb have "poll_loop prov job_ids ci s = Some (Raises e (s1\<lparr>trace := trace s1 @ [Query job_id]\<rparr>))"
    by (subst poll_loop.simps) simp
  with loop_head_poll_loop[OF head]
  show "wait_for_jobs_completion prov job_ids ci = Some (Raises e (s1\<lparr>trace := trace s1 @ [Query job_id]\<rparr>))"
    by (simp add: wait_for_jobs_completion_def)
next
  assume a: "poll_loop prov job_ids ci (initial_state job_ids) = Some (Returns s2)
      \<and> job_ids = before @ job_id # rest
      \<and> final_summary prov before
            (print_line (CHR 0x0A # ''Final Status Summary:'')
               (print_line (CHR 0x0A # '' All '' @ str_nat (length job_ids) @ '' job(s) have completed!'') s2))
          = Returns s3
      \<and> prov (trace s3) job_id = Inl e"
  then have "final_summary prov (job_id # rest) s3 = Raises e (s3\<lparr>trace := trace s3 @ [Query job_id]\<rparr>)"
    by (simp add: describe_jobs_def)
  moreover from a have ids: "job_ids = before @ job_id # rest"
    and pre: "final_summary prov before
            (print_line (CHR 0x0A # ''Final Status Summary:'')
               (print_line (CHR 0x0A # '' All '' @ str_nat (length job_ids) @ '' job(s) have completed!'') s2))
          = Returns s3"
    and run: "poll_loop prov job_ids ci (initial_state job_ids) = Some (Returns s2)" by blast+
  ultimately have "final_summary prov (before @ job_id # rest)
            (print_line (CHR 0x0A # ''Final Status Summary:'')
               (print_line (CHR 0x0A # '' All '' @ str_nat (length job_ids) @ '' job(s) have completed!'') s2))
          = Raises e (s3\<lparr>trace := trace s3 @ [Query job_id]\<rparr>)"
    by (simp only: final_summary_append outcome.case)
  then have "final_summary prov job_ids
            (print_line (CHR 0x0A # ''Final Status Summary:'')
               (print_line (CHR 0x0A # '' All '' @ str_nat (length job_ids) @ '' job(s) have completed!'') s2))
          = Raises e (s3\<lparr>trace := trace s3 @ [Query job_id]\<rparr>)"
    using ids by simp
  with run show "wait_for_jobs_completion prov job_ids ci = Some (Raises e (s3\<lparr>trace := trace s3 @ [Query job_id]\<rparr>))"
    by (simp add: wait_for_jobs_completion_def)
qed

theorem provider_error_propagates_witness:
  "wait_for_jobs_completion always_failing [''id-1'', ''id-2''] 60 =
     Some (Raises (ClientError ''ThrottlingException'')
       \<lparr>trace = [Print ''Waiting for 2 job(s) to complete...'',
                  Print (''This may take several minutes depending on the workload.'' @ [CHR 0x0A]),
                  Query ''id-1''],
         completed_jobs = {}\<rparr>)"
  using provider_error_propagates[where prov = always_failing and job_ids = "[''id-1'', ''id-2'']"
      and ci = 60 and n = 0 and s = "initial_state [''id-1'', ''id-2'']" and before = "[]"
      and job_id = "''id-1''" and rest = "[''id-2'']" and ?s1.0 = "initial_state [''id-1'', ''id-2'']"
      and e = "ClientError ''ThrottlingException''"]
  by (simp add: always_failing_def initial_state_def print_line_def str_nat.simps digit_char_def)



text \<open>
  C9: with a duplicated identifier in the list the completed set stays strictly smaller
  than the list, so the function never returns; and when the provider reports every job
  terminal and the interval is not negative (so nothing raises), it runs forever.
\<close>

theorem duplicate_ids_never_return:
  assumes "\<not> distinct job_ids"
  shows "(\<forall>s::state. completed_jobs s \<subseteq> set job_ids \<longrightarrow> card (completed_jobs s) < length job_ids)
       \<and> (\<forall>s. wait_for_jobs_completion prov job_ids ci \<noteq> Some (Returns s))
       \<and> (0 \<le> ci \<and> (\<forall>h j. j \<in> set job_ids \<longrightarrow> reports_terminal prov h j)
            \<longrightarrow> wait_for_jobs_completion prov job_ids ci = None)"
proof (intro conjI allI impI)
  fix s :: state assume "completed_jobs s \<subseteq> set job_ids"
  with assms show "card (completed_jobs s) < length job_ids" by (rule dup_card_less)
next
  fix s
  have "completed_jobs (initial_state job_ids) \<subseteq> set job_ids"
    by (simp add: initial_state_def print_line_def)
  from poll_loop_dup_no_return[OF assms this]
  have "\<And>s'. poll_loop prov job_ids ci (initial_state job_ids) \<noteq> Some (Returns s')" .
  then show "wait_for_jobs_completion prov job_ids ci \<noteq> Some (Returns s)"
    by (auto simp: wait_for_jobs_completion_def split: option.splits outcome.splits)
next
  assume "0 \<le> ci \<and> (\<forall>h j. j \<in> set job_ids \<longrightarrow> reports_terminal prov h j)"
  with assms show "wait_for_jobs_completion prov job_ids ci = None"
    using wait_diverges by blast
qed

theorem duplicate_ids_never_return_witness:
  "\<not> distinct [''id-2'', ''id-1'', ''id-2'']
   \<and> wait_for_jobs_completion always_succeeded [''id-2'', ''id-1'', ''id-2''] 0 = None"
proof -
  have d: "\<not> distinct [''id-2'', ''id-1'', ''id-2'']" by simp
  show ?thesis
    using d duplicate_ids_never_return[OF d, of always_succeeded 0] always_succeeded_terminal
    by simp
qed

section \<open>Properties of the inference script\<close>

text \<open>
  C10 (as amended): for a mode that is neither \<^verbatim>\<open>'logits'\<close> nor \<^verbatim>\<open>'embeddings'\<close>,
  \<^verbatim>\<open>predict_fn\<close> always raises and never calls the model. It looks at the mode only after
  the sequence has been tokenized and moved to the device: what it raises is the exception
  of the first of these two calls that fails, and the \<^verbatim>\<open>ValueError\<close> for the unknown mode
  when both return. \<^verbatim>\<open>input_fn\<close> hands a mode present in the JSON object on unchanged and
  gives \<^verbatim>\<open>'logits'\<close> when the key is missing; with that mode \<^verbatim>\<open>predict_fn\<close> returns what
  \<^verbatim>\<open>model(inputs)\<close> returns, paired with the mode, or raises what it raises.
\<close>

theorem unknown_mode_rejected:
  "(mode \<noteq> JStr ''logits'' \<and> mode \<noteq> JStr ''embeddings'' \<longrightarrow>
      predict_fn (sequence, mode) art =
        (case tokenizer art sequence of
           Inl e \<Rightarrow> (Inl e, [Encode sequence])
         | Inr inputs \<Rightarrow>
             (case to_device art inputs (device art) of
                Inl e \<Rightarrow> (Inl e, [Encode sequence, To (device art)])
              | Inr inputs' \<Rightarrow> (Inl (UnknownMode mode), [Encode sequence, To (device art)])))
      \<and> (\<exists>e. fst (predict_fn (sequence, mode) art) = Inl e)
      \<and> (\<forall>hidden. Forward hidden \<notin> set (snd (predict_fn (sequence, mode) art)))
      \<and> (\<forall>inputs inputs'. tokenizer art sequence = Inr inputs \<and> to_device art inputs (device art) = Inr inputs'
            \<longrightarrow> predict_fn (sequence, mode) art = (Inl (UnknownMode mode), [Encode sequence, To (device art)])))
   \<and> is_ValueError (UnknownMode mode)
   \<and> (json_loads request_body = Inr (JObj input_data)
        \<and> map_of input_data ''sequence'' = Some sequence \<and> map_of input_data ''mode'' = Some mode
      \<longrightarrow> input_fn json_loads request_body ''application/json'' = Inr (sequence, mode))
   \<and> (json_loads request_body = Inr (JObj input_data)
        \<and> map_of input_data ''sequence'' = Some sequence \<and> map_of input_data ''mode'' = None
      \<longrightarrow> input_fn json_loads request_body ''application/json'' = Inr (sequence, JStr ''logits''))
   \<and> predict_fn (sequence, JStr ''logits'') art =
        (case tokenizer art sequence of
           Inl e \<Rightarrow> (Inl e, [Encode sequence])
         | Inr inputs \<Rightarrow>
             (case to_device art inputs (device art) of
                Inl e \<Rightarrow> (Inl e, [Encode sequence, To (device art)])
              | Inr inputs' \<Rightarrow>
                  (case model art inputs' False of
                     Inl e \<Rightarrow> Inl e
                   | Inr output \<Rightarrow> Inr (output, JStr ''logits''),
                   [Encode sequence, To (device art), Forward False])))"
proof (intro conjI impI allI)
  assume m: "mode \<noteq> JStr ''logits'' \<and> mode \<noteq> JStr ''embeddings''"
  then show "predict_fn (sequence, mode) art =
        (case tokenizer art sequence of
           Inl e \<Rightarrow> (Inl e, [Encode sequence])
         | Inr inputs \<Rightarrow>
             (case to_device art inputs (device art) of
                Inl e \<Rightarrow> (Inl e, [Encode sequence, To (device art)])
              | Inr inputs' \<Rightarrow> (Inl (UnknownMode mode), [Encode sequence, To (device art)])))"
    by (simp add: predict_fn_def split: sum.splits)
  from m show "\<exists>e. fst (predict_fn (sequence, mode) art) = Inl e"
    by (auto simp: predict_fn_def split: sum.splits)
  fix hidden
  from m show "Forward hidden \<notin> set (snd (predict_fn (sequence, mode) art))"
    by (auto simp: predict_fn_def split: sum.splits)
next
  fix inputs inputs'
  assume "mode \<noteq> JStr ''logits'' \<and> mode \<noteq> JStr ''embeddings''"
    and "tokenizer art sequence = Inr inputs \<and> to_device art inputs (device art) = Inr inputs'"
  then show "predict_fn (sequence, mode) art = (Inl (UnknownMode mode), [Encode sequence, To (device art)])"
    by (simp add: predict_fn_def)
next
  show "is_ValueError (UnknownMode mode)" by simp
next
  assume "json_loads request_body = Inr (JObj input_data)
        \<and> map_of input_data ''sequence'' = Some sequence \<and> map_of input_data ''mode'' = Some mode"
  then show "input_fn json_loads request_body ''application/json'' = Inr (sequence, mode)"
    by (simp add: input_fn_def)
next
  assume "json_loads request_body = Inr (JObj input_data)
        \<and> map_of input_data ''sequence'' = Some sequence \<and> map_of input_data ''mode'' = None"
  then show "input_fn json_loads request_body ''application/json'' = Inr (sequence, JStr ''logits'')"
    by (simp add: input_fn_def)
next
  show "predict_fn (sequence, JStr ''logits'') art =
        (case tokenizer art sequence of
           Inl e \<Rightarrow> (Inl e, [Encode sequence])
         | Inr inputs \<Rightarrow>
             (case to_device art inputs (device art) of
                Inl e \<Rightarrow> (Inl e, [Encode sequence, To (device art)])
              | Inr inputs' \<Rightarrow>
                  (case model art inputs' False of
                     Inl e \<Rightarrow> Inl e
                   | Inr output \<Rightarrow> Inr (output, JStr ''logits''),
                   [Encode sequence, To (device art), Forward False])))"
    by (simp add: predict_fn_def split: sum.splits)
qed

theorem unknown_mode_rejected_witness:
  "input_fn toy_loads ''{\"sequence\": \"MSV\", \"mode\": \"attention\"}'' ''application/json''
     = Inr (JStr ''MSV'', JStr ''attention'')
   \<and> predict_fn (JStr ''MSV'', JStr ''attention'') toy_artifacts
     = (Inl (UnknownMode (JStr ''attention'')), [Encode (JStr ''MSV''), To ''cpu''])
   \<and> input_fn toy_loads ''{\"sequence\": \"MSV\"}'' ''application/json'' = Inr (JStr ''MSV'', JStr ''logits'')
   \<and> predict_fn (JStr ''MSV'', JStr ''logits'') toy_artifacts
     = (Inr (''logits:MSV'', JStr ''logits''), [Encode (JStr ''MSV''), To ''cpu'', Forward False])"
  using unknown_mode_rejected[where mode = "JStr ''attention''" and sequence = "JStr ''MSV''"
      and art = toy_artifacts and json_loads = toy_loads
      and request_body = "''{\"sequence\": \"MSV\", \"mode\": \"attention\"}''"
      and input_data = "[(''sequence'', JStr ''MSV''), (''mode'', JStr ''attention'')]"]
    unknown_mode_rejected[where mode = "JStr ''attention''" and sequence = "JStr ''MSV''"
      and art = toy_artifacts and json_loads = toy_loads
      and request_body = "''{\"sequence\": \"MSV\"}''"
      and input_data = "[(''sequence'', JStr ''MSV'')]"]
  by (simp add: toy_artifacts_def toy_loads_def)

text \<open>
  The exception need not be a \<^verbatim>\<open>ValueError\<close>: for the request
  \<^verbatim>\<open>{"sequence": 5, "mode": "attention"}\<close> and a tokenizer that refuses a number with a
  \<^verbatim>\<open>TypeError\<close>, that \<^verbatim>\<open>TypeError\<close> leaves \<^verbatim>\<open>predict_fn\<close> before the mode is looked at.
\<close>

theorem unknown_mode_other_exception_counterexample:
  "input_fn toy_loads ''{\"sequence\": 5, \"mode\": \"attention\"}'' ''application/json''
     = Inr (JNum ''5'', JStr ''attention'')
   \<and> predict_fn (JNum ''5'', JStr ''attention'') toy_artifacts
     = (Inl (LibraryTypeError ''TextEncodeInput must be a string''), [Encode (JNum ''5'')])
   \<and> \<not> is_ValueError (LibraryTypeError ''TextEncodeInput must be a string'')"
  by (simp add: input_fn_def toy_loads_def predict_fn_def toy_artifacts_def)

end
